theory Spec2Isabelle
  imports Complex_Main "HOL-Library.Word" "HOL-Library.Multiset"
begin

section \<open>Python values used by the domain layer\<close>

text \<open>
  Python strings are modelled as \<open>string\<close> with one \<open>char\<close> per code point, which covers
  the code points below 256. An argument that may be \<open>None\<close> is a \<open>string option\<close>.
  Python's truth test on such a value (\<open>if x\<close>, \<open>all([...])\<close>) is false for \<open>None\<close> and
  for the empty string.
\<close>

definition truthy :: "string option \<Rightarrow> bool" where
  "truthy x = (case x of None \<Rightarrow> False | Some s \<Rightarrow> s \<noteq> [])"

text \<open>\<open>if grade_level\<close>: false for \<open>None\<close> and for \<open>0\<close>.\<close>

definition truthy_int :: "int option \<Rightarrow> bool" where
  "truthy_int x = (case x of None \<Rightarrow> False | Some i \<Rightarrow> i \<noteq> 0)"

text \<open>
  The \<open>sqlite3\<close> module binds a Python int as a 64-bit signed integer; for an int outside
  that range the binding raises \<open>OverflowError\<close> before the statement runs.
\<close>

definition fits_int64 :: "int \<Rightarrow> bool" where
  "fits_int64 i = (- (2 ^ 63) \<le> i \<and> i < 2 ^ 63)"

definition nl :: char where
  "nl = CHR 0x0A"

text \<open>\<open>str.isspace\<close> on the code points below 256.\<close>

definition isspace :: "char \<Rightarrow> bool" where
  "isspace c = ((of_char c :: nat) \<in> {9, 10, 11, 12, 13, 28, 29, 30, 31, 32, 133, 160})"

text \<open>\<open>s.strip()\<close>\<close>

definition strip :: "string \<Rightarrow> string" where
  "strip s = rev (dropWhile isspace (rev (dropWhile isspace s)))"

text \<open>\<open>s.split(",")\<close>: the empty string gives one empty entry.\<close>

fun split_comma :: "string \<Rightarrow> string list" where
  "split_comma [] = [[]]"
| "split_comma (c # cs) =
     (if c = CHR '','' then [] # split_comma cs
      else (case split_comma cs of [] \<Rightarrow> [[c]] | w # ws \<Rightarrow> (c # w) # ws))"

text \<open>\<open>s[-4:]\<close>: the last four characters, or all of \<open>s\<close> when it is shorter.\<close>

definition last4 :: "string \<Rightarrow> string" where
  "last4 s = drop (length s - 4) s"

text \<open>\<open>s.zfill(width)\<close>: zeros go after a leading sign.\<close>

definition zfill :: "nat \<Rightarrow> string \<Rightarrow> string" where
  "zfill width s =
     (if width \<le> length s then s
      else (case s of
              [] \<Rightarrow> replicate width (CHR ''0'')
            | c # cs \<Rightarrow>
                if c = CHR ''+'' \<or> c = CHR ''-''
                then c # replicate (width - length s) (CHR ''0'') @ cs
                else replicate (width - length s) (CHR ''0'') @ s))"

definition digit_char :: "nat \<Rightarrow> char" where
  "digit_char d = ''0123456789'' ! d"

function str_nat :: "nat \<Rightarrow> string" where
  "str_nat n = (if n < 10 then [digit_char n] else str_nat (n div 10) @ [digit_char (n mod 10)])"
  by pat_completeness auto
termination
  by (relation "measure id") auto

declare str_nat.simps [simp del]

text \<open>\<open>str(i)\<close> of an int, as an f-string prints it.\<close>

definition str_int :: "int \<Rightarrow> string" where
  "str_int i = (if i < 0 then CHR ''-'' # str_nat (nat (- i)) else str_nat (nat i))"

text \<open>\<open>f"{i:02d}"\<close>: sign first, then the digits padded with zeros to a total width of 2.\<close>

definition fmt_02d :: "int \<Rightarrow> string" where
  "fmt_02d i =
     (if i < 0 then CHR ''-'' # str_nat (nat (- i))
      else replicate (2 - length (str_nat (nat i))) (CHR ''0'') @ str_nat (nat i))"

subsection \<open>The two regular expressions\<close>

text \<open>
  A pattern is the function from a string to the remainders left by every way of matching
  it at the start of the string; \<open>re.match\<close> succeeds when there is at least one.
\<close>

type_synonym matcher = "string \<Rightarrow> string list"

definition rx_class :: "(char \<Rightarrow> bool) \<Rightarrow> matcher" where
  "rx_class P s = (case s of [] \<Rightarrow> [] | c # cs \<Rightarrow> if P c then [cs] else [])"

definition rx_seq :: "matcher \<Rightarrow> matcher \<Rightarrow> matcher" where
  "rx_seq a b s = concat (map b (a s))"

definition rx_opt :: "matcher \<Rightarrow> matcher" where
  "rx_opt a s = a s @ [s]"

text \<open>Zero or more characters of a class.\<close>

fun rx_star_class :: "(char \<Rightarrow> bool) \<Rightarrow> matcher" where
  "rx_star_class P [] = [[]]"
| "rx_star_class P (c # cs) = (if P c then (c # cs) # rx_star_class P cs else [c # cs])"

definition rx_plus_class :: "(char \<Rightarrow> bool) \<Rightarrow> matcher" where
  "rx_plus_class P = rx_seq (rx_class P) (rx_star_class P)"

primrec rx_times :: "nat \<Rightarrow> matcher \<Rightarrow> matcher" where
  "rx_times 0 a = (\<lambda>s. [s])"
| "rx_times (Suc n) a = rx_seq a (rx_times n a)"

primrec rx_upto :: "nat \<Rightarrow> matcher \<Rightarrow> matcher" where
  "rx_upto 0 a = (\<lambda>s. [s])"
| "rx_upto (Suc n) a = (\<lambda>s. s # rx_seq a (rx_upto n a) s)"

text \<open>\<open>$\<close> without MULTILINE: the end of the string, or just before a final newline.\<close>

definition rx_eol :: matcher where
  "rx_eol s = (if s = [] \<or> s = [nl] then [s] else [])"

definition re_match :: "matcher \<Rightarrow> string \<Rightarrow> bool" where
  "re_match a s = (a s \<noteq> [])"

definition not_at :: "char \<Rightarrow> bool" where
  "not_at c = (c \<noteq> CHR ''@'')"

text \<open>\<open>\d\<close> on the code points below 256.\<close>

definition isdigit :: "char \<Rightarrow> bool" where
  "isdigit c = (48 \<le> (of_char c :: nat) \<and> (of_char c :: nat) \<le> 57)"

text \<open>\<open>re.match(r"[^@]+@[^@]+\.[^@]+", email) is not None\<close>\<close>

definition validate_email :: "string \<Rightarrow> bool" where
  "validate_email email =
     re_match (rx_seq (rx_plus_class not_at)
              (rx_seq (rx_class (\<lambda>c. c = CHR ''@''))
              (rx_seq (rx_plus_class not_at)
              (rx_seq (rx_class (\<lambda>c. c = CHR ''.''))
                      (rx_plus_class not_at))))) email"

text \<open>\<open>re.match(r"^\+?\d{10,15}$", phone) is not None if phone else True\<close>\<close>

definition validate_phone :: "string option \<Rightarrow> bool" where
  "validate_phone phone =
     (if truthy phone
      then re_match (rx_seq (rx_opt (rx_class (\<lambda>c. c = CHR ''+'')))
                    (rx_seq (rx_times 10 (rx_class isdigit))
                    (rx_seq (rx_upto 5 (rx_class isdigit))
                            rx_eol))) (the phone)
      else True)"

section \<open>The relational store\<close>

text \<open>
  One record per table of \<open>create_tables\<close>, the columns prefixed by the alias the export
  query gives the table. A nullable column that the code can leave or set NULL is an
  \<open>option\<close>; \<open>users.email\<close> is nullable but every INSERT supplies a string. The
  column \<open>users.created_at\<close> is never read and is left out.
  A grade is a Python float bound to a REAL column: \<open>None\<close> is SQL NULL (what \<open>None\<close> and
  NaN are stored as), \<open>Some r\<close> a number. \<open>courses.course_id\<close> is the rowid of its table, a
  64-bit signed integer: \<open>c_rowid\<close> is the stored value and \<open>c_course_id\<close> the Python int a
  cursor reads from it.
\<close>

record user_row =
  u_username :: string
  u_password :: string
  u_role :: string
  u_name :: string
  u_email :: string
  u_phone :: "string option"

record student_row =
  s_student_id :: string
  s_username :: string
  s_grade_level :: int
  s_assigned_teacher :: "string option"

record course_row =
  c_rowid :: "64 word"
  c_course_name :: string
  c_teacher_username :: "string option"
  c_credits :: int

record enrollment_row =
  e_enrollment_id :: int
  e_student_username :: string
  e_course_id :: int
  e_grade :: "real option"

record attendance_row =
  a_attendance_id :: int
  a_student_username :: string
  a_course_id :: int
  a_date :: string
  a_status :: string

record timetable_row =
  t_timetable_id :: int
  t_course_id :: int
  t_day :: string
  t_start_time :: string
  t_end_time :: string

record database =
  tbl_users :: "user_row list"
  tbl_students :: "student_row list"
  tbl_courses :: "course_row list"
  tbl_enrollments :: "enrollment_row list"
  tbl_attendance :: "attendance_row list"
  tbl_timetable :: "timetable_row list"

definition c_course_id :: "course_row \<Rightarrow> int" where
  "c_course_id c = sint (c_rowid c)"

definition empty_db :: database where
  "empty_db = \<lparr>tbl_users = [], tbl_students = [], tbl_courses = [], tbl_enrollments = [],
               tbl_attendance = [], tbl_timetable = []\<rparr>"

text \<open>A constraint that makes a statement fail with \<open>sqlite3.IntegrityError\<close>.\<close>

datatype sql_violation = UNIQUE string | CHECK string

definition str_violation :: "sql_violation \<Rightarrow> string" where
  "str_violation v =
     (case v of UNIQUE c \<Rightarrow> ''UNIQUE constraint failed: '' @ c
              | CHECK c \<Rightarrow> ''CHECK constraint failed: '' @ c)"

text \<open>
  \<open>INTEGER PRIMARY KEY AUTOINCREMENT\<close>: one more than the largest id used so far. No
  statement of the program deletes a row, so that is the largest id in the table.
\<close>

definition next_id :: "int list \<Rightarrow> int" where
  "next_id ids = fold max ids 0 + 1"

text \<open>
  The INSERT and UPDATE statements. A failing statement changes nothing. SQLite tests the
  CHECK constraints of a row before its uniqueness constraints. Foreign keys are declared
  but not enforced: the connection never turns \<open>PRAGMA foreign_keys\<close> on. The NOT NULL
  columns always receive a string. The name a violation carries stands for the text of
  SQLite's message, which differs between versions of the library, as does which of two
  violated uniqueness constraints is reported.
\<close>

definition insert_user :: "user_row \<Rightarrow> database \<Rightarrow> sql_violation + database" where
  "insert_user r db =
     (if u_role r \<notin> {''admin'', ''teacher'', ''student''} then Inl (CHECK ''users'')
      else if \<exists>x \<in> set (tbl_users db). u_username x = u_username r
        then Inl (UNIQUE ''users.username'')
      else if \<exists>x \<in> set (tbl_users db). u_email x = u_email r
        then Inl (UNIQUE ''users.email'')
      else Inr (db\<lparr>tbl_users := tbl_users db @ [r]\<rparr>))"

definition insert_student :: "student_row \<Rightarrow> database \<Rightarrow> sql_violation + database" where
  "insert_student r db =
     (if \<not> (1 \<le> s_grade_level r \<and> s_grade_level r \<le> 12) then Inl (CHECK ''students'')
      else if \<exists>x \<in> set (tbl_students db). s_student_id x = s_student_id r
        then Inl (UNIQUE ''students.student_id'')
      else if \<exists>x \<in> set (tbl_students db). s_username x = s_username r
        then Inl (UNIQUE ''students.username'')
      else Inr (db\<lparr>tbl_students := tbl_students db @ [r]\<rparr>))"

text \<open>\<open>INSERT INTO courses (course_name, teacher_username, credits) VALUES (?, ?, 3)\<close>\<close>

definition insert_course :: "string \<Rightarrow> string \<Rightarrow> database \<Rightarrow> database" where
  "insert_course course_name teacher db =
     db\<lparr>tbl_courses := tbl_courses db @
          [\<lparr>c_rowid = word_of_int (next_id (map c_course_id (tbl_courses db))),
            c_course_name = course_name, c_teacher_username = Some teacher, c_credits = 3\<rparr>]\<rparr>"

text \<open>\<open>INSERT INTO enrollments (student_username, course_id) VALUES (?, ?)\<close>: grade NULL.\<close>

definition insert_enrollment :: "string \<Rightarrow> int \<Rightarrow> database \<Rightarrow> database" where
  "insert_enrollment student_username course_id db =
     db\<lparr>tbl_enrollments := tbl_enrollments db @
          [\<lparr>e_enrollment_id = next_id (map e_enrollment_id (tbl_enrollments db)),
            e_student_username = student_username, e_course_id = course_id,
            e_grade = None\<rparr>]\<rparr>"

text \<open>\<open>CHECK(grade BETWEEN 0 AND 100)\<close>: NULL passes.\<close>

definition grade_check :: "real option \<Rightarrow> bool" where
  "grade_check g = (case g of None \<Rightarrow> True | Some r \<Rightarrow> 0 \<le> r \<and> r \<le> 100)"

text \<open>\<open>UPDATE enrollments SET grade = ? WHERE student_username = ? AND course_id = ?\<close>\<close>

definition update_grade ::
  "real option \<Rightarrow> string \<Rightarrow> int \<Rightarrow> database \<Rightarrow> sql_violation + database" where
  "update_grade grade student_username course_id db =
     (if (\<exists>e \<in> set (tbl_enrollments db).
            e_student_username e = student_username \<and> e_course_id e = course_id)
         \<and> \<not> grade_check grade
      then Inl (CHECK ''enrollments'')
      else Inr (db\<lparr>tbl_enrollments :=
                  map (\<lambda>e. if e_student_username e = student_username \<and> e_course_id e = course_id
                            then e\<lparr>e_grade := grade\<rparr> else e)
                      (tbl_enrollments db)\<rparr>))"

definition insert_attendance ::
  "string \<Rightarrow> int \<Rightarrow> string \<Rightarrow> string \<Rightarrow> database \<Rightarrow> sql_violation + database" where
  "insert_attendance student_username course_id date status db =
     (if status \<notin> {''Present'', ''Absent'', ''Late''} then Inl (CHECK ''attendance'')
      else Inr (db\<lparr>tbl_attendance := tbl_attendance db @
                  [\<lparr>a_attendance_id = next_id (map a_attendance_id (tbl_attendance db)),
                    a_student_username = student_username, a_course_id = course_id,
                    a_date = date, a_status = status\<rparr>]\<rparr>))"

definition insert_timetable ::
  "int \<Rightarrow> string \<Rightarrow> string \<Rightarrow> string \<Rightarrow> database \<Rightarrow> sql_violation + database" where
  "insert_timetable course_id day start_time end_time db =
     (if day \<notin> {''Monday'', ''Tuesday'', ''Wednesday'', ''Thursday'', ''Friday''}
      then Inl (CHECK ''timetable'')
      else Inr (db\<lparr>tbl_timetable := tbl_timetable db @
                  [\<lparr>t_timetable_id = next_id (map t_timetable_id (tbl_timetable db)),
                    t_course_id = course_id, t_day = day,
                    t_start_time = start_time, t_end_time = end_time\<rparr>]\<rparr>))"

section \<open>SchoolManagementSystem\<close>

text \<open>
  The object's state: \<open>conn\<close> is the database as the connection sees it, with the changes
  of the open transaction; \<open>committed\<close> is what \<open>conn.commit()\<close> last made durable;
  \<open>files\<close> maps a file name to the text written to it.
\<close>

record login_info =
  li_username :: string
  li_role :: string
  li_name :: string

record sms =
  conn :: database
  committed :: database
  logged_in_user :: "login_info option"
  files :: "string \<Rightarrow> string option"

datatype py_error =
    PermissionError string
  | ValueError string
  | IntegrityError sql_violation
  | OverflowError string
  | FileNotFoundError string
  | UnicodeEncodeError string

text \<open>What binding an int that does not fit 64 bits raises.\<close>

definition int_too_large :: py_error where
  "int_too_large = OverflowError ''Python int too large to convert to SQLite INTEGER''"

definition commit :: "sms \<Rightarrow> sms" where
  "commit s = s\<lparr>committed := conn s\<rparr>"

text \<open>
  \<open>hashlib.sha256(password.encode()).hexdigest()\<close>: the digest function is the library's and
  is a parameter of every operation that hashes.
\<close>

definition hash_password :: "(string \<Rightarrow> string) \<Rightarrow> string \<Rightarrow> string" where
  "hash_password sha256_hexdigest password = sha256_hexdigest password"

text \<open>
  \<open>initialize_admin\<close> runs once, on the empty tables, where its INSERT cannot fail; the
  branch for a failure is there to keep the function total.
\<close>

definition initialize_admin :: "(string \<Rightarrow> string) \<Rightarrow> sms \<Rightarrow> sms" where
  "initialize_admin sha256_hexdigest s =
     (if length (filter (\<lambda>u. u_role u = ''admin'') (tbl_users (conn s))) = 0
      then (case insert_user \<lparr>u_username = ''admin'',
                               u_password = hash_password sha256_hexdigest ''admin123'',
                               u_role = ''admin'', u_name = ''System Administrator'',
                               u_email = ''admin@school.edu'', u_phone = None\<rparr> (conn s) of
              Inl v \<Rightarrow> s
            | Inr db \<Rightarrow> commit (s\<lparr>conn := db\<rparr>))
      else s)"

text \<open>\<open>__init__\<close>: the tables are dropped and created again, then the admin is inserted.\<close>

definition init :: "(string \<Rightarrow> string) \<Rightarrow> (string \<Rightarrow> string option) \<Rightarrow> sms" where
  "init sha256_hexdigest fs =
     initialize_admin sha256_hexdigest
       \<lparr>conn = empty_db, committed = empty_db, logged_in_user = None, files = fs\<rparr>"

definition login :: "(string \<Rightarrow> string) \<Rightarrow> string \<Rightarrow> string \<Rightarrow> sms \<Rightarrow> bool \<times> sms" where
  "login sha256_hexdigest username password s =
     (case find (\<lambda>u. u_username u = username
                      \<and> u_password u = hash_password sha256_hexdigest password)
                (tbl_users (conn s)) of
        Some user \<Rightarrow>
          (True, s\<lparr>logged_in_user :=
                     Some \<lparr>li_username = u_username user, li_role = u_role user,
                           li_name = u_name user\<rparr>\<rparr>)
      | None \<Rightarrow> (False, s))"

text \<open>\<open>not self.logged_in_user or self.logged_in_user["role"] != r\<close>\<close>

definition lacks_role :: "string \<Rightarrow> sms \<Rightarrow> bool" where
  "lacks_role r s = (case logged_in_user s of None \<Rightarrow> True | Some li \<Rightarrow> li_role li \<noteq> r)"

text \<open>
  \<open>add_user\<close>. A statement that raises \<open>sqlite3.IntegrityError\<close> is turned into a
  \<open>ValueError\<close>; the handler does not roll back, so what earlier statements of the call
  inserted stays in the open transaction. The \<open>OverflowError\<close> of binding a grade level
  that does not fit 64 bits is not caught; it too leaves the inserted user behind.
\<close>

definition add_user ::
  "(string \<Rightarrow> string) \<Rightarrow> string option \<Rightarrow> string option \<Rightarrow> string option \<Rightarrow> string option \<Rightarrow>
   string option \<Rightarrow> string option \<Rightarrow> int option \<Rightarrow> string option \<Rightarrow> string option \<Rightarrow>
   sms \<Rightarrow> (py_error + bool) \<times> sms" where
  "add_user sha256_hexdigest username password role name email phone grade_level
            assigned_teacher courses s =
     (if lacks_role ''admin'' s then (Inl (PermissionError ''Admin access required''), s)
      else if \<not> (truthy username \<and> truthy password \<and> truthy role \<and> truthy name \<and> truthy email)
        then (Inl (ValueError ''Missing required fields''), s)
      else if \<not> validate_email (the email)
        then (Inl (ValueError ''Invalid email format''), s)
      else if truthy phone \<and> \<not> validate_phone phone
        then (Inl (ValueError ''Invalid phone format''), s)
      else
        (case insert_user \<lparr>u_username = the username,
                            u_password = hash_password sha256_hexdigest (the password),
                            u_role = the role, u_name = the name, u_email = the email,
                            u_phone = phone\<rparr> (conn s) of
           Inl v \<Rightarrow> (Inl (ValueError (''User creation failed: '' @ str_violation v)), s)
         | Inr db1 \<Rightarrow>
             if role = Some ''student'' \<and> truthy_int grade_level then
               (if \<not> fits_int64 (the grade_level) then (Inl int_too_large, s\<lparr>conn := db1\<rparr>)
                else case insert_student
                       \<lparr>s_student_id = ''STU'' @ zfill 4 (last4 (the username))
                                         @ fmt_02d (the grade_level),
                        s_username = the username, s_grade_level = the grade_level,
                        s_assigned_teacher = assigned_teacher\<rparr> db1 of
                  Inl v \<Rightarrow>
                    (Inl (ValueError (''User creation failed: '' @ str_violation v)),
                     s\<lparr>conn := db1\<rparr>)
                | Inr db2 \<Rightarrow>
                    (Inr True,
                     commit (s\<lparr>conn :=
                       (if truthy assigned_teacher
                        then fold (\<lambda>course db. insert_enrollment (the username) course db)
                               (map c_course_id
                                  (filter (\<lambda>c. c_teacher_username c = assigned_teacher)
                                          (tbl_courses db2)))
                               db2
                        else db2)\<rparr>)))
             else if role = Some ''teacher'' \<and> truthy courses then
               (Inr True,
                commit (s\<lparr>conn :=
                  fold (\<lambda>course_name db.
                          if strip course_name \<noteq> []
                          then insert_course (strip course_name) (the username) db else db)
                       (split_comma (the courses)) db1\<rparr>))
             else (Inr True, commit (s\<lparr>conn := db1\<rparr>))))"

definition enroll_student :: "string \<Rightarrow> int \<Rightarrow> sms \<Rightarrow> (py_error + bool) \<times> sms" where
  "enroll_student student_username course_id s =
     (if find (\<lambda>u. u_username u = student_username \<and> u_role u = ''student'')
              (tbl_users (conn s)) = None
        then (Inl (ValueError ''Invalid student username''), s)
      else if \<not> fits_int64 course_id then (Inl int_too_large, s)
      else if find (\<lambda>c. c_course_id c = course_id) (tbl_courses (conn s)) = None
        then (Inl (ValueError ''Invalid course ID''), s)
      else (Inr True,
            commit (s\<lparr>conn := insert_enrollment student_username course_id (conn s)\<rparr>)))"

definition assign_grade ::
  "string \<Rightarrow> int \<Rightarrow> real option \<Rightarrow> sms \<Rightarrow> (py_error + bool) \<times> sms" where
  "assign_grade student_username course_id grade s =
     (if lacks_role ''teacher'' s then (Inl (PermissionError ''Permission denied''), s)
      else if \<not> fits_int64 course_id then (Inl int_too_large, s)
      else (case update_grade grade student_username course_id (conn s) of
              Inl v \<Rightarrow> (Inl (IntegrityError v), s)
            | Inr db \<Rightarrow> (Inr True, commit (s\<lparr>conn := db\<rparr>))))"

text \<open>
  \<open>mark_attendance\<close>; \<open>today\<close> is \<open>datetime.now().date()\<close> as the connection stores it, the
  ISO text of the date, supplied by the caller of the model.
\<close>

definition mark_attendance ::
  "string \<Rightarrow> string \<Rightarrow> int \<Rightarrow> string \<Rightarrow> sms \<Rightarrow> (py_error + bool) \<times> sms" where
  "mark_attendance today student_username course_id status s =
     (if lacks_role ''teacher'' s then (Inl (PermissionError ''Permission denied''), s)
      else if \<not> fits_int64 course_id then (Inl int_too_large, s)
      else (case insert_attendance student_username course_id today status (conn s) of
              Inl v \<Rightarrow> (Inl (IntegrityError v), s)
            | Inr db \<Rightarrow> (Inr True, commit (s\<lparr>conn := db\<rparr>))))"

definition add_timetable ::
  "int \<Rightarrow> string \<Rightarrow> string \<Rightarrow> string \<Rightarrow> sms \<Rightarrow> (py_error + bool) \<times> sms" where
  "add_timetable course_id day start_time end_time s =
     (if lacks_role ''admin'' s then (Inl (PermissionError ''Admin access required''), s)
      else if \<not> fits_int64 course_id then (Inl int_too_large, s)
      else (case insert_timetable course_id day start_time end_time (conn s) of
              Inl v \<Rightarrow> (Inl (IntegrityError v), s)
            | Inr db \<Rightarrow> (Inr True, commit (s\<lparr>conn := db\<rparr>))))"

subsection \<open>export_report\<close>

text \<open>One row of the report query: \<open>record[0]\<close> to \<open>record[6]\<close>.\<close>

record report_record =
  r_course_name :: string
  r_grade :: "real option"
  r_status :: "string option"
  r_date :: "string option"
  r_day :: "string option"
  r_start_time :: "string option"
  r_end_time :: "string option"

text \<open>The right side of a LEFT JOIN: the matching rows, or one all-NULL row when none.\<close>

definition left_join :: "('a \<Rightarrow> bool) \<Rightarrow> 'a list \<Rightarrow> 'a option list" where
  "left_join P xs = (case filter P xs of [] \<Rightarrow> [None] | y # ys \<Rightarrow> map Some (y # ys))"

text \<open>
  The rows the query yields for one enrollment \<open>e\<close>: courses joined on the course id, then
  attendance and timetable left-joined. The query has no ORDER BY, so the list says which
  rows there are and how many of each, not in which order the engine returns them.
\<close>

definition joined_rows :: "database \<Rightarrow> enrollment_row \<Rightarrow> report_record list" where
  "joined_rows db e =
     concat (map (\<lambda>c.
       concat (map (\<lambda>a.
         map (\<lambda>t. \<lparr>r_course_name = c_course_name c, r_grade = e_grade e,
                    r_status = map_option a_status a, r_date = map_option a_date a,
                    r_day = map_option t_day t, r_start_time = map_option t_start_time t,
                    r_end_time = map_option t_end_time t\<rparr>)
             (left_join (\<lambda>t. t_course_id t = e_course_id e) (tbl_timetable db)))
         (left_join (\<lambda>a. a_student_username a = e_student_username e
                          \<and> a_course_id a = e_course_id e) (tbl_attendance db))))
       (filter (\<lambda>c. e_course_id e = c_course_id c) (tbl_courses db)))"

definition report_records :: "database \<Rightarrow> string \<Rightarrow> report_record list" where
  "report_records db student_username =
     concat (map (joined_rows db)
                 (filter (\<lambda>e. e_student_username e = student_username) (tbl_enrollments db)))"

text \<open>How an f-string prints a value that may be \<open>None\<close>.\<close>

definition str_opt :: "string option \<Rightarrow> string" where
  "str_opt x = (case x of None \<Rightarrow> ''None'' | Some s \<Rightarrow> s)"

text \<open>
  \<open>record[1] if record[1] else 'N/A'\<close>: NULL and 0.0 are both false. \<open>str_float\<close> is
  Python's printing of a float, a parameter.
\<close>

definition grade_text :: "(real \<Rightarrow> string) \<Rightarrow> real option \<Rightarrow> string" where
  "grade_text str_float g =
     (case g of None \<Rightarrow> ''N/A'' | Some r \<Rightarrow> if r = 0 then ''N/A'' else str_float r)"

text \<open>The text one pass of the loop body appends: one block of the report.\<close>

definition render_record :: "(real \<Rightarrow> string) \<Rightarrow> report_record \<Rightarrow> string" where
  "render_record str_float r =
     ''Course: '' @ r_course_name r @ [nl] @ ''Grade: '' @ grade_text str_float (r_grade r) @ [nl]
     @ (if truthy (r_status r)
        then ''Attendance: '' @ str_opt (r_status r) @ '' on '' @ str_opt (r_date r) @ [nl]
        else [])
     @ (if truthy (r_day r)
        then ''Schedule: '' @ str_opt (r_day r) @ '' '' @ str_opt (r_start_time r) @ ''-''
             @ str_opt (r_end_time r) @ [nl]
        else [])
     @ [nl]"

definition report_header :: "string \<Rightarrow> student_row \<Rightarrow> string" where
  "report_header student_username student =
     ''Report for '' @ student_username @ '' (ID: '' @ s_student_id student @ '')'' @ [nl]
     @ ''Grade Level: '' @ str_int (s_grade_level student) @ [nl]
     @ ''Assigned Teacher: ''
     @ (if truthy (s_assigned_teacher student) then the (s_assigned_teacher student)
        else ''None'')
     @ [nl, nl]"

text \<open>The text the loop builds from the header and the fetched rows.\<close>

definition report_text ::
  "(real \<Rightarrow> string) \<Rightarrow> string \<Rightarrow> student_row \<Rightarrow> report_record list \<Rightarrow> string" where
  "report_text str_float student_username student records =
     fold (\<lambda>record report. report @ render_record str_float record) records
          (report_header student_username student)"

text \<open>
  \<open>export_report\<close>. Three things are the environment's and are parameters:
  \<open>fetch_order\<close>, the order in which \<open>cursor.fetchall()\<close> returns the rows of the query;
  \<open>open_error\<close>, what \<open>open(filename, 'w')\<close> raises for a file name, \<open>None\<close> when it
  opens the file, which creates or empties it; and \<open>encode_error\<close>, what \<open>f.write\<close>
  raises for a text with a character the file's encoding lacks, \<open>None\<close> when it writes
  the text.
\<close>

definition export_report ::
  "(real \<Rightarrow> string) \<Rightarrow> (report_record list \<Rightarrow> report_record list) \<Rightarrow>
   (string \<Rightarrow> py_error option) \<Rightarrow> (string \<Rightarrow> py_error option) \<Rightarrow>
   string \<Rightarrow> string \<Rightarrow> sms \<Rightarrow> (py_error + bool) \<times> sms" where
  "export_report str_float fetch_order open_error encode_error student_username filename s =
     (case find (\<lambda>st. s_username st = student_username) (tbl_students (conn s)) of
        None \<Rightarrow> (Inr False, s)
      | Some student \<Rightarrow>
          (case open_error filename of
             Some e \<Rightarrow> (Inl e, s)
           | None \<Rightarrow>
               (case encode_error
                       (report_text str_float student_username student
                          (fetch_order (report_records (conn s) student_username))) of
                  Some e \<Rightarrow> (Inl e, s\<lparr>files := (files s)(filename \<mapsto> [])\<rparr>)
                | None \<Rightarrow>
                    (Inr True,
                     s\<lparr>files := (files s)(filename \<mapsto>
                         report_text str_float student_username student
                           (fetch_order (report_records (conn s) student_username)))\<rparr>))))"

section \<open>Sequences of calls\<close>

datatype call =
    Login string string
  | AddUser "string option" "string option" "string option" "string option" "string option"
            "string option" "int option" "string option" "string option"
  | EnrollStudent string int
  | AssignGrade string int "real option"
  | MarkAttendance string string int string
  | AddTimetable int string string string
  | ExportReport "report_record list \<Rightarrow> report_record list" "string \<Rightarrow> py_error option"
                 "string \<Rightarrow> py_error option" string string

text \<open>
  The state a call leaves behind, whether it returns or raises. A call carries what the
  environment contributes to it: the date for \<open>mark_attendance\<close>, the order of the fetched
  rows and the behaviour of the file system for \<open>export_report\<close>.
\<close>

fun run_call :: "(string \<Rightarrow> string) \<Rightarrow> (real \<Rightarrow> string) \<Rightarrow> call \<Rightarrow> sms \<Rightarrow> sms" where
  "run_call sha str_float (Login username password) s = snd (login sha username password s)"
| "run_call sha str_float (AddUser username password role name email phone grade_level
                                   assigned_teacher courses) s =
     snd (add_user sha username password role name email phone grade_level assigned_teacher
                   courses s)"
| "run_call sha str_float (EnrollStudent student_username course_id) s =
     snd (enroll_student student_username course_id s)"
| "run_call sha str_float (AssignGrade student_username course_id grade) s =
     snd (assign_grade student_username course_id grade s)"
| "run_call sha str_float (MarkAttendance today student_username course_id status) s =
     snd (mark_attendance today student_username course_id status s)"
| "run_call sha str_float (AddTimetable course_id day start_time end_time) s =
     snd (add_timetable course_id day start_time end_time s)"
| "run_call sha str_float (ExportReport fetch_order open_error encode_error student_username
                                        filename) s =
     snd (export_report str_float fetch_order open_error encode_error student_username
                        filename s)"

definition run_calls ::
  "(string \<Rightarrow> string) \<Rightarrow> (real \<Rightarrow> string) \<Rightarrow> call list \<Rightarrow> sms \<Rightarrow> sms" where
  "run_calls sha str_float cs s = fold (run_call sha str_float) cs s"

section \<open>Properties of the store\<close>

text \<open>Every row of \<open>students\<close> belongs to a user whose role is student.\<close>

definition students_are_student_users :: "database \<Rightarrow> bool" where
  "students_are_student_users db =
     (\<forall>st \<in> set (tbl_students db).
        \<exists>u \<in> set (tbl_users db). u_username u = s_username st \<and> u_role u = ''student'')"

text \<open>Every row of \<open>enrollments\<close> names a user whose role is student.\<close>

definition enrollments_are_of_students :: "database \<Rightarrow> bool" where
  "enrollments_are_of_students db =
     (\<forall>e \<in> set (tbl_enrollments db).
        \<exists>u \<in> set (tbl_users db). u_username u = e_student_username e \<and> u_role u = ''student'')"

text \<open>A user has a row in \<open>students\<close> exactly when the user's role is student.\<close>

definition student_row_iff_role :: "database \<Rightarrow> bool" where
  "student_row_iff_role db =
     (\<forall>u \<in> set (tbl_users db).
        (\<exists>st \<in> set (tbl_students db). s_username st = u_username u) \<longleftrightarrow> u_role u = ''student'')"

definition store_ok :: "sms \<Rightarrow> bool" where
  "store_ok s =
     (students_are_student_users (conn s) \<and> students_are_student_users (committed s)
      \<and> enrollments_are_of_students (conn s) \<and> enrollments_are_of_students (committed s))"

section \<open>Example runs\<close>

text \<open>
  The SHA-256 hex digests of the passwords the examples use, and Python's printing of the
  grades they use.
\<close>

definition sha256_examples :: "string \<Rightarrow> string" where
  "sha256_examples p =
     (if p = ''admin123''
        then ''240be518fabd2724ddb6f04eeb1da5967448d7e831c08c8fa822809f74c720a9''
      else if p = ''pw1''
        then ''c592df4a86933b92addc9842402ddf198c638ea9be58916ee6e3734e1e3152f8''
      else if p = ''pw2''
        then ''93915a0a4bf8f634cb1856494dd4304472ad46b9827f541f76b6761c49cc55b0''
      else [])"

definition str_float_examples :: "real \<Rightarrow> string" where
  "str_float_examples r = (if r = 85 then ''85.0'' else if r = 150 then ''150.0'' else [])"

text \<open>
  A working directory without subdirectories: a file name that is empty or has a slash
  cannot be opened. And an encoding that has every character, such as UTF-8.
\<close>

definition open_error_examples :: "string \<Rightarrow> py_error option" where
  "open_error_examples filename =
     (if filename = [] \<or> CHR ''/'' \<in> set filename
      then Some (FileNotFoundError ''[Errno 2] No such file or directory'') else None)"

definition encode_error_examples :: "string \<Rightarrow> py_error option" where
  "encode_error_examples report = None"

text \<open>A fresh process, before anybody logs in.\<close>

definition start :: sms where
  "start = init sha256_examples Map.empty"

text \<open>
  The admin logs in and creates teacher t1 with the courses Math and Science and teacher t2
  with the course Art.
\<close>

definition admin_calls :: "call list" where
  "admin_calls =
     [Login ''admin'' ''admin123'',
      AddUser (Some ''t1'') (Some ''pw1'') (Some ''teacher'') (Some ''Tina'')
              (Some ''t1@school.edu'') None None None (Some ''Math, Science''),
      AddUser (Some ''t2'') (Some ''pw1'') (Some ''teacher'') (Some ''Tom'')
              (Some ''t2@school.edu'') None None None (Some ''Art'')]"

definition admin_school :: sms where
  "admin_school = run_calls sha256_examples str_float_examples admin_calls start"

text \<open>Then the admin creates student s1, grade 9, assigned to t1, and t2 logs in.\<close>

definition teacher_calls :: "call list" where
  "teacher_calls =
     [AddUser (Some ''s1'') (Some ''pw2'') (Some ''student'') (Some ''Sam'')
              (Some ''s1@school.edu'') None (Some 9) (Some ''t1'') None,
      Login ''t2'' ''pw1'']"

definition teacher_school :: sms where
  "teacher_school = run_calls sha256_examples str_float_examples teacher_calls admin_school"

text \<open>Then t2 marks s1 present in Math on one day and late on the next.\<close>

definition attendance_calls :: "call list" where
  "attendance_calls =
     [MarkAttendance ''2024-01-08'' ''s1'' 1 ''Present'',
      MarkAttendance ''2024-01-09'' ''s1'' 1 ''Late'']"

definition attended_school :: sms where
  "attended_school =
     run_calls sha256_examples str_float_examples attendance_calls teacher_school"



section \<open>Auxiliary facts\<close>

lemma find_SomeD: "find P xs = Some x \<Longrightarrow> x \<in> set xs \<and> P x"
  by (induction xs) (auto split: if_splits)

lemma find_eq_None: "find P xs = None \<longleftrightarrow> (\<forall>x \<in> set xs. \<not> P x)"
  by (induction xs) auto

text \<open>A course id read from the table fits 64 bits.\<close>

lemma course_id_fits: "fits_int64 (c_course_id c)"
  unfolding c_course_id_def fits_int64_def
  using sint_ge[of "c_rowid c"] sint_lt[of "c_rowid c"] by simp

section \<open>login\<close>

text \<open>
  C1. \<open>login\<close> returns \<open>True\<close> exactly when some row of \<open>users\<close> has the supplied username,
  character for character, and the digest of the supplied password as its password. The
  comparison folds neither case nor blanks: when no row carries exactly the supplied
  username, the call fails, whatever rows with a username that differs in case or in
  surrounding whitespace there are.
\<close>

theorem login_succeeds_iff_exact_match:
  "(fst (login H username password s) \<longleftrightarrow>
      (\<exists>u \<in> set (tbl_users (conn s)). u_username u = username \<and> u_password u = H password))
   \<and> ((\<forall>u \<in> set (tbl_users (conn s)). u_username u \<noteq> username)
        \<longrightarrow> \<not> fst (login H username password s))"
proof -
  let ?P = "\<lambda>u. u_username u = username \<and> u_password u = hash_password H password"
  have iff: "fst (login H username password s) \<longleftrightarrow> (\<exists>u \<in> set (tbl_users (conn s)). ?P u)"
  proof (cases "find ?P (tbl_users (conn s))")
    case None
    have "\<not> fst (login H username password s)" using None by (simp add: login_def)
    moreover have "\<not> (\<exists>u \<in> set (tbl_users (conn s)). ?P u)"
      using None by (simp add: find_eq_None)
    ultimately show ?thesis by blast
  next
    case (Some u)
    then show ?thesis using find_SomeD[OF Some] by (auto simp: login_def)
  qed
  then show ?thesis by (auto simp: hash_password_def)
qed

text \<open>
  In a fresh process the admin logs in as \<open>admin\<close>; \<open>Admin\<close> and \<open>admin\<close> with a leading
  or a trailing blank are refused with the right password.
\<close>

theorem login_succeeds_iff_exact_match_witness:
  "(\<exists>u \<in> set (tbl_users (conn start)).
      u_username u = ''admin'' \<and> u_password u = sha256_examples ''admin123'')
   \<and> fst (login sha256_examples ''admin'' ''admin123'' start)
   \<and> \<not> (\<exists>u \<in> set (tbl_users (conn start)). u_username u = ''Admin'')
   \<and> \<not> fst (login sha256_examples ''Admin'' ''admin123'' start)
   \<and> \<not> (\<exists>u \<in> set (tbl_users (conn start)). u_username u = '' admin'')
   \<and> \<not> fst (login sha256_examples '' admin'' ''admin123'' start)
   \<and> \<not> (\<exists>u \<in> set (tbl_users (conn start)). u_username u = ''admin '')
   \<and> \<not> fst (login sha256_examples ''admin '' ''admin123'' start)"
proof -
  have a: "\<exists>u \<in> set (tbl_users (conn start)).
             u_username u = ''admin'' \<and> u_password u = sha256_examples ''admin123''"
    by code_simp
  have b: "\<not> (\<exists>u \<in> set (tbl_users (conn start)). u_username u = ''Admin'')" by code_simp
  have c: "\<not> (\<exists>u \<in> set (tbl_users (conn start)). u_username u = '' admin'')" by code_simp
  have d: "\<not> (\<exists>u \<in> set (tbl_users (conn start)). u_username u = ''admin '')" by code_simp
  show ?thesis
    using a b c d
      login_succeeds_iff_exact_match[of sha256_examples "''admin''" "''admin123''" start]
      login_succeeds_iff_exact_match[of sha256_examples "''Admin''" "''admin123''" start]
      login_succeeds_iff_exact_match[of sha256_examples "'' admin''" "''admin123''" start]
      login_succeeds_iff_exact_match[of sha256_examples "''admin ''" "''admin123''" start]
    by blast
qed

text \<open>
  C10. A call of \<open>login\<close> whose username and password match no row of \<open>users\<close> returns
  \<open>False\<close> and leaves \<open>logged_in_user\<close>, and the rest of the state, as it was.
\<close>

theorem failed_login_keeps_logged_in_user:
  assumes "\<not> (\<exists>u \<in> set (tbl_users (conn s)).
                u_username u = username \<and> u_password u = H password)"
  shows "fst (login H username password s) = False
         \<and> logged_in_user (snd (login H username password s)) = logged_in_user s
         \<and> snd (login H username password s) = s"
proof -
  have "find (\<lambda>u. u_username u = username \<and> u_password u = hash_password H password)
             (tbl_users (conn s)) = None"
    using assms by (simp add: find_eq_None hash_password_def)
  then show ?thesis by (simp add: login_def)
qed

text \<open>With the admin logged in, a login as \<open>admin\<close> with a wrong password leaves the admin logged in.\<close>

theorem failed_login_keeps_logged_in_user_witness:
  "\<not> (\<exists>u \<in> set (tbl_users (conn admin_school)).
         u_username u = ''admin'' \<and> u_password u = sha256_examples ''pw1'')
   \<and> fst (login sha256_examples ''admin'' ''pw1'' admin_school) = False
   \<and> logged_in_user (snd (login sha256_examples ''admin'' ''pw1'' admin_school))
     = Some \<lparr>li_username = ''admin'', li_role = ''admin'', li_name = ''System Administrator''\<rparr>"
proof -
  have h: "\<not> (\<exists>u \<in> set (tbl_users (conn admin_school)).
                u_username u = ''admin'' \<and> u_password u = sha256_examples ''pw1'')"
    by code_simp
  have li: "logged_in_user admin_school
            = Some \<lparr>li_username = ''admin'', li_role = ''admin'',
                    li_name = ''System Administrator''\<rparr>"
    by code_simp
  show ?thesis
    using h li
      failed_login_keeps_logged_in_user[of admin_school "''admin''" sha256_examples "''pw1''"]
    by simp
qed

section \<open>enroll_student\<close>

text \<open>
  C8, as the code has it. For a course id that fits a 64-bit signed integer,
  \<open>enroll_student\<close> raises a \<open>ValueError\<close> exactly when no user with role student has the
  given username or no course has the given id. Otherwise it returns \<open>True\<close>, appends one
  row with a NULL grade to \<open>enrollments\<close> and commits; nothing is asked about the rows
  already there, so an enrollment that exists is added a second time.
\<close>

theorem enroll_student_validation:
  assumes "fits_int64 course_id"
  shows
  "((\<exists>m. fst (enroll_student student_username course_id s) = Inl (ValueError m)) \<longleftrightarrow>
      \<not> (\<exists>u \<in> set (tbl_users (conn s)). u_username u = student_username \<and> u_role u = ''student'')
      \<or> \<not> (\<exists>c \<in> set (tbl_courses (conn s)). c_course_id c = course_id))
   \<and> ((\<exists>u \<in> set (tbl_users (conn s)). u_username u = student_username \<and> u_role u = ''student'')
        \<and> (\<exists>c \<in> set (tbl_courses (conn s)). c_course_id c = course_id)
       \<longrightarrow> fst (enroll_student student_username course_id s) = Inr True
           \<and> tbl_enrollments (conn (snd (enroll_student student_username course_id s)))
             = tbl_enrollments (conn s) @
                 [\<lparr>e_enrollment_id = next_id (map e_enrollment_id (tbl_enrollments (conn s))),
                   e_student_username = student_username, e_course_id = course_id,
                   e_grade = None\<rparr>]
           \<and> committed (snd (enroll_student student_username course_id s))
             = conn (snd (enroll_student student_username course_id s)))"
  using assms
  by (auto simp: enroll_student_def find_eq_None insert_enrollment_def commit_def)

text \<open>
  Student s1 is enrolled in course 1 already and is enrolled in it again; teacher t1 is
  not a student and course 99 does not exist.
\<close>

theorem enroll_student_validation_witness:
  "fits_int64 1 \<and> fits_int64 99
   \<and> (\<exists>e \<in> set (tbl_enrollments (conn teacher_school)).
      e_student_username e = ''s1'' \<and> e_course_id e = 1)
   \<and> fst (enroll_student ''s1'' 1 teacher_school) = Inr True
   \<and> tbl_enrollments (conn (snd (enroll_student ''s1'' 1 teacher_school)))
     = tbl_enrollments (conn teacher_school) @
         [\<lparr>e_enrollment_id = 3, e_student_username = ''s1'', e_course_id = 1, e_grade = None\<rparr>]
   \<and> (\<exists>m. fst (enroll_student ''t1'' 1 teacher_school) = Inl (ValueError m))
   \<and> (\<exists>m. fst (enroll_student ''s1'' 99 teacher_school) = Inl (ValueError m))"
proof -
  have f1: "fits_int64 1" and f99: "fits_int64 99" by (simp_all add: fits_int64_def)
  have dup: "\<exists>e \<in> set (tbl_enrollments (conn teacher_school)).
               e_student_username e = ''s1'' \<and> e_course_id e = 1"
    by code_simp
  have u: "\<exists>u \<in> set (tbl_users (conn teacher_school)).
             u_username u = ''s1'' \<and> u_role u = ''student''"
    by code_simp
  have c: "\<exists>c \<in> set (tbl_courses (conn teacher_school)). c_course_id c = 1" by code_simp
  have n: "next_id (map e_enrollment_id (tbl_enrollments (conn teacher_school))) = 3"
    by code_simp
  have t: "\<not> (\<exists>u \<in> set (tbl_users (conn teacher_school)).
                u_username u = ''t1'' \<and> u_role u = ''student'')"
    by code_simp
  have k: "\<not> (\<exists>c \<in> set (tbl_courses (conn teacher_school)). c_course_id c = 99)"
    by code_simp
  show ?thesis
    using f1 f99 dup u c n t k
      enroll_student_validation[OF f1, of "''s1''" teacher_school]
      enroll_student_validation[OF f1, of "''t1''" teacher_school]
      enroll_student_validation[OF f99, of "''s1''" teacher_school]
    by simp
qed

text \<open>
  C8 as stated fails: for student s1 and the course id \<open>2^63\<close>, which no course has, the
  call raises neither a \<open>ValueError\<close> nor returns; binding the id raises
  \<open>OverflowError\<close>, and nothing is inserted.
\<close>

theorem enroll_student_validation_counterexample:
  "(\<exists>u \<in> set (tbl_users (conn teacher_school)).
      u_username u = ''s1'' \<and> u_role u = ''student'')
   \<and> \<not> (\<exists>c \<in> set (tbl_courses (conn teacher_school)).
          c_course_id c = 9223372036854775808)
   \<and> enroll_student ''s1'' 9223372036854775808 teacher_school
     = (Inl (OverflowError ''Python int too large to convert to SQLite INTEGER''),
        teacher_school)"
proof -
  have u: "\<exists>u \<in> set (tbl_users (conn teacher_school)).
             u_username u = ''s1'' \<and> u_role u = ''student''"
    by code_simp
  have c: "\<not> (\<exists>c \<in> set (tbl_courses (conn teacher_school)).
                c_course_id c = 9223372036854775808)"
    by code_simp
  have f: "\<not> fits_int64 9223372036854775808" by (simp add: fits_int64_def)
  have st: "find (\<lambda>u. u_username u = ''s1'' \<and> u_role u = ''student'')
                 (tbl_users (conn teacher_school)) \<noteq> None"
    using u by (simp add: find_eq_None)
  have r: "enroll_student ''s1'' 9223372036854775808 teacher_school
           = (Inl (OverflowError ''Python int too large to convert to SQLite INTEGER''),
              teacher_school)"
    unfolding enroll_student_def int_too_large_def using st f by simp
  show ?thesis
    by (rule conjI[OF u], rule conjI[OF c], rule r)
qed

text \<open>
  C9. \<open>enroll_student\<close> never looks at \<open>logged_in_user\<close>: with a student username and an
  existing course id it returns \<open>True\<close> and inserts the row whoever is logged in, also
  nobody, and in no state and for no arguments does it raise a \<open>PermissionError\<close>.
\<close>

theorem enroll_student_has_no_permission_check:
  assumes "\<exists>u \<in> set (tbl_users (conn s)). u_username u = student_username \<and> u_role u = ''student''"
    and "\<exists>c \<in> set (tbl_courses (conn s)). c_course_id c = course_id"
  shows "fst (enroll_student student_username course_id (s\<lparr>logged_in_user := who\<rparr>)) = Inr True
         \<and> tbl_enrollments (conn (snd (enroll_student student_username course_id
                                         (s\<lparr>logged_in_user := who\<rparr>))))
           = tbl_enrollments (conn s) @
               [\<lparr>e_enrollment_id = next_id (map e_enrollment_id (tbl_enrollments (conn s))),
                 e_student_username = student_username, e_course_id = course_id,
                 e_grade = None\<rparr>]
         \<and> (\<forall>any_username any_course_id any_state m.
               fst (enroll_student any_username any_course_id any_state)
                 \<noteq> Inl (PermissionError m))"
proof -
  from assms(2) have "fits_int64 course_id" using course_id_fits by auto
  with assms show ?thesis
    by (auto simp: enroll_student_def find_eq_None insert_enrollment_def commit_def
          int_too_large_def)
qed

text \<open>With nobody logged in, and with student s1 logged in, s1 is enrolled in course 3.\<close>

theorem enroll_student_has_no_permission_check_witness:
  "(\<exists>u \<in> set (tbl_users (conn teacher_school)). u_username u = ''s1'' \<and> u_role u = ''student'')
   \<and> (\<exists>c \<in> set (tbl_courses (conn teacher_school)). c_course_id c = 3)
   \<and> fst (enroll_student ''s1'' 3 (teacher_school\<lparr>logged_in_user := None\<rparr>)) = Inr True
   \<and> fst (enroll_student ''s1'' 3
            (teacher_school\<lparr>logged_in_user :=
               Some \<lparr>li_username = ''s1'', li_role = ''student'', li_name = ''Sam''\<rparr>\<rparr>))
     = Inr True"
proof -
  have u: "\<exists>u \<in> set (tbl_users (conn teacher_school)).
             u_username u = ''s1'' \<and> u_role u = ''student''"
    by code_simp
  have c: "\<exists>c \<in> set (tbl_courses (conn teacher_school)). c_course_id c = 3" by code_simp
  show ?thesis
    using u c
      enroll_student_has_no_permission_check[OF u c, of None]
      enroll_student_has_no_permission_check[OF u c,
        of "Some \<lparr>li_username = ''s1'', li_role = ''student'', li_name = ''Sam''\<rparr>"]
    by blast
qed


section \<open>add_user\<close>

lemma insert_user_duplicate:
  assumes "(\<exists>x \<in> set (tbl_users db). u_username x = u_username r)
           \<or> (\<exists>x \<in> set (tbl_users db). u_email x = u_email r)"
  shows "\<exists>v. insert_user r db = Inl v
             \<and> (u_role r \<in> {''admin'', ''teacher'', ''student''} \<longrightarrow>
                  v = UNIQUE ''users.username'' \<or> v = UNIQUE ''users.email'')"
proof (cases "u_role r \<in> {''admin'', ''teacher'', ''student''}")
  case False
  then show ?thesis by (simp add: insert_user_def)
next
  case role_ok: True
  show ?thesis
  proof (cases "\<exists>x \<in> set (tbl_users db). u_username x = u_username r")
    case True
    with role_ok show ?thesis by (simp add: insert_user_def)
  next
    case False
    with assms have "\<exists>x \<in> set (tbl_users db). u_email x = u_email r" by blast
    with role_ok False show ?thesis by (simp add: insert_user_def)
  qed
qed

lemma insert_user_Inr:
  "insert_user r db = Inr db' \<Longrightarrow>
     db' = db\<lparr>tbl_users := tbl_users db @ [r]\<rparr>
     \<and> u_role r \<in> {''admin'', ''teacher'', ''student''}
     \<and> (\<forall>x \<in> set (tbl_users db). u_username x \<noteq> u_username r)
     \<and> (\<forall>x \<in> set (tbl_users db). u_email x \<noteq> u_email r)"
  by (auto simp: insert_user_def split: if_splits)

lemma insert_student_Inr:
  "insert_student r db = Inr db' \<Longrightarrow>
     db' = db\<lparr>tbl_students := tbl_students db @ [r]\<rparr>
     \<and> 1 \<le> s_grade_level r \<and> s_grade_level r \<le> 12"
  by (auto simp: insert_student_def split: if_splits)

lemma insert_course_tables [simp]:
  "tbl_users (insert_course n t db) = tbl_users db"
  "tbl_students (insert_course n t db) = tbl_students db"
  "tbl_enrollments (insert_course n t db) = tbl_enrollments db"
  "tbl_attendance (insert_course n t db) = tbl_attendance db"
  "tbl_timetable (insert_course n t db) = tbl_timetable db"
  by (simp_all add: insert_course_def)

lemma insert_enrollment_tables [simp]:
  "tbl_users (insert_enrollment u c db) = tbl_users db"
  "tbl_students (insert_enrollment u c db) = tbl_students db"
  "tbl_courses (insert_enrollment u c db) = tbl_courses db"
  "tbl_attendance (insert_enrollment u c db) = tbl_attendance db"
  "tbl_timetable (insert_enrollment u c db) = tbl_timetable db"
  by (simp_all add: insert_enrollment_def)

text \<open>The loop over the course names touches the table of courses only.\<close>

lemma fold_insert_course_tables:
  "tbl_users (fold (\<lambda>course_name db. if strip course_name \<noteq> []
                      then insert_course (strip course_name) U db else db) names db)
     = tbl_users db
   \<and> tbl_students (fold (\<lambda>course_name db. if strip course_name \<noteq> []
                      then insert_course (strip course_name) U db else db) names db)
     = tbl_students db
   \<and> tbl_enrollments (fold (\<lambda>course_name db. if strip course_name \<noteq> []
                      then insert_course (strip course_name) U db else db) names db)
     = tbl_enrollments db"
  by (induction names arbitrary: db) auto

lemma fold_insert_course_rows:
  "\<exists>new. tbl_courses (fold (\<lambda>course_name db. if strip course_name \<noteq> []
                              then insert_course (strip course_name) U db else db) names db)
          = tbl_courses db @ new
       \<and> map (\<lambda>c. (c_course_name c, c_teacher_username c, c_credits c)) new
          = map (\<lambda>n. (n, Some U, 3)) (filter (\<lambda>n. n \<noteq> []) (map strip names))"
proof (induction names arbitrary: db)
  case Nil
  then show ?case by simp
next
  case (Cons n names)
  show ?case
  proof (cases "strip n = []")
    case True
    with Cons[of db] show ?thesis by simp
  next
    case False
    from Cons[of "insert_course (strip n) U db"] obtain new where
      1: "tbl_courses (fold (\<lambda>course_name db. if strip course_name \<noteq> []
                              then insert_course (strip course_name) U db else db) names
                          (insert_course (strip n) U db))
          = tbl_courses (insert_course (strip n) U db) @ new"
      and 2: "map (\<lambda>c. (c_course_name c, c_teacher_username c, c_credits c)) new
          = map (\<lambda>n. (n, Some U, 3)) (filter (\<lambda>n. n \<noteq> []) (map strip names))"
      by blast
    let ?row = "\<lparr>c_rowid = word_of_int (next_id (map c_course_id (tbl_courses db))),
            c_course_name = strip n, c_teacher_username = Some U, c_credits = 3\<rparr>"
    have "tbl_courses (fold (\<lambda>course_name db. if strip course_name \<noteq> []
                              then insert_course (strip course_name) U db else db)
                         (n # names) db)
          = tbl_courses db @ (?row # new)"
      using 1 False by (simp add: insert_course_def)
    moreover have "map (\<lambda>c. (c_course_name c, c_teacher_username c, c_credits c)) (?row # new)
          = map (\<lambda>n. (n, Some U, 3)) (filter (\<lambda>n. n \<noteq> []) (map strip (n # names)))"
      using 2 False by simp
    ultimately show ?thesis by blast
  qed
qed

text \<open>The loop over the teacher's courses touches the table of enrollments only.\<close>

lemma fold_insert_enrollment_tables:
  "tbl_users (fold (\<lambda>course db. insert_enrollment U course db) cs db) = tbl_users db
   \<and> tbl_students (fold (\<lambda>course db. insert_enrollment U course db) cs db) = tbl_students db
   \<and> tbl_courses (fold (\<lambda>course db. insert_enrollment U course db) cs db) = tbl_courses db"
  by (induction cs arbitrary: db) auto

lemma fold_insert_enrollment_rows:
  "\<exists>new. tbl_enrollments (fold (\<lambda>course db. insert_enrollment U course db) cs db)
          = tbl_enrollments db @ new
       \<and> map (\<lambda>e. (e_student_username e, e_course_id e, e_grade e)) new
          = map (\<lambda>c. (U, c, None)) cs"
proof (induction cs arbitrary: db)
  case Nil
  then show ?case by simp
next
  case (Cons c cs)
  from Cons[of "insert_enrollment U c db"] obtain new where
    1: "tbl_enrollments (fold (\<lambda>course db. insert_enrollment U course db) cs
                           (insert_enrollment U c db))
        = tbl_enrollments (insert_enrollment U c db) @ new"
    and 2: "map (\<lambda>e. (e_student_username e, e_course_id e, e_grade e)) new
          = map (\<lambda>c. (U, c, None)) cs"
    by blast
  let ?row = "\<lparr>e_enrollment_id = next_id (map e_enrollment_id (tbl_enrollments db)),
            e_student_username = U, e_course_id = c, e_grade = None\<rparr>"
  have "tbl_enrollments (fold (\<lambda>course db. insert_enrollment U course db) (c # cs) db)
        = tbl_enrollments db @ (?row # new)"
    using 1 by (simp add: insert_enrollment_def)
  moreover have "map (\<lambda>e. (e_student_username e, e_course_id e, e_grade e)) (?row # new)
          = map (\<lambda>c. (U, c, None)) (c # cs)"
    using 2 by simp
  ultimately show ?case by blast
qed

text \<open>What a call of \<open>add_user\<close> that returns has done.\<close>

lemma add_user_success:
  assumes "add_user H username password role name email phone grade_level assigned_teacher
             courses s = (Inr True, s')"
  shows "\<exists>db1. insert_user \<lparr>u_username = the username,
                            u_password = hash_password H (the password),
                            u_role = the role, u_name = the name, u_email = the email,
                            u_phone = phone\<rparr> (conn s) = Inr db1
          \<and> truthy username \<and> truthy role
          \<and> committed s' = conn s'
          \<and> conn s' =
             (if role = Some ''student'' \<and> truthy_int grade_level then
                (let db2 = db1\<lparr>tbl_students := tbl_students db1 @
                            [\<lparr>s_student_id = ''STU'' @ zfill 4 (last4 (the username))
                                         @ fmt_02d (the grade_level),
                              s_username = the username, s_grade_level = the grade_level,
                              s_assigned_teacher = assigned_teacher\<rparr>]\<rparr>
                 in if truthy assigned_teacher
                    then fold (\<lambda>course db. insert_enrollment (the username) course db)
                               (map c_course_id
                                  (filter (\<lambda>c. c_teacher_username c = assigned_teacher)
                                          (tbl_courses db2)))
                               db2
                    else db2)
              else if role = Some ''teacher'' \<and> truthy courses then
                 fold (\<lambda>course_name db.
                          if strip course_name \<noteq> []
                          then insert_course (strip course_name) (the username) db else db)
                       (split_comma (the courses)) db1
              else db1)"
  using assms
  by (auto simp: add_user_def commit_def Let_def split: if_splits sum.splits
           dest!: insert_student_Inr)

text \<open>
  C7. \<open>add_user\<close> raises \<open>PermissionError\<close> when nobody is logged in or the logged-in user
  is not an admin. Under an admin it raises \<open>ValueError\<close> with one of the three validation
  messages when a required field is missing or empty, when the email does not match the
  email pattern, or when a non-empty phone does not match the phone pattern. Under an
  admin and with valid fields it raises the \<open>ValueError\<close> made from the store's
  \<open>IntegrityError\<close> when the username or the email is that of an existing user, which for a
  role the table accepts is the failure of the uniqueness of the username or of the email.
  In every one of these cases the state, pending and committed rows alike, is as before.
\<close>

theorem add_user_rejections:
  "(lacks_role ''admin'' s \<longrightarrow>
      add_user H username password role name email phone grade_level assigned_teacher courses s
        = (Inl (PermissionError ''Admin access required''), s))
   \<and> (\<not> lacks_role ''admin'' s
       \<and> (\<not> truthy username \<or> \<not> truthy password \<or> \<not> truthy role \<or> \<not> truthy name
          \<or> \<not> truthy email \<or> \<not> validate_email (the email)
          \<or> (truthy phone \<and> \<not> validate_phone phone)) \<longrightarrow>
      (\<exists>m \<in> {''Missing required fields'', ''Invalid email format'', ''Invalid phone format''}.
         add_user H username password role name email phone grade_level assigned_teacher
                  courses s = (Inl (ValueError m), s)))
   \<and> (\<not> lacks_role ''admin'' s
       \<and> truthy username \<and> truthy password \<and> truthy role \<and> truthy name \<and> truthy email
       \<and> validate_email (the email) \<and> (truthy phone \<longrightarrow> validate_phone phone)
       \<and> ((\<exists>u \<in> set (tbl_users (conn s)). u_username u = the username)
          \<or> (\<exists>u \<in> set (tbl_users (conn s)). u_email u = the email)) \<longrightarrow>
      (\<exists>v. add_user H username password role name email phone grade_level assigned_teacher
                     courses s
              = (Inl (ValueError (''User creation failed: '' @ str_violation v)), s)
            \<and> (the role \<in> {''admin'', ''teacher'', ''student''} \<longrightarrow>
                 v = UNIQUE ''users.username'' \<or> v = UNIQUE ''users.email'')))"
proof (intro conjI impI)
  assume "lacks_role ''admin'' s"
  then show "add_user H username password role name email phone grade_level assigned_teacher
               courses s = (Inl (PermissionError ''Admin access required''), s)"
    by (simp add: add_user_def)
next
  assume "\<not> lacks_role ''admin'' s
       \<and> (\<not> truthy username \<or> \<not> truthy password \<or> \<not> truthy role \<or> \<not> truthy name
          \<or> \<not> truthy email \<or> \<not> validate_email (the email)
          \<or> (truthy phone \<and> \<not> validate_phone phone))"
  then show "\<exists>m \<in> {''Missing required fields'', ''Invalid email format'',
                    ''Invalid phone format''}.
         add_user H username password role name email phone grade_level assigned_teacher
                  courses s = (Inl (ValueError m), s)"
    by (auto simp: add_user_def)
next
  assume a: "\<not> lacks_role ''admin'' s
       \<and> truthy username \<and> truthy password \<and> truthy role \<and> truthy name \<and> truthy email
       \<and> validate_email (the email) \<and> (truthy phone \<longrightarrow> validate_phone phone)
       \<and> ((\<exists>u \<in> set (tbl_users (conn s)). u_username u = the username)
          \<or> (\<exists>u \<in> set (tbl_users (conn s)). u_email u = the email))"
  let ?r = "\<lparr>u_username = the username, u_password = hash_password H (the password),
             u_role = the role, u_name = the name, u_email = the email, u_phone = phone\<rparr>"
  from a have dup: "(\<exists>x \<in> set (tbl_users (conn s)). u_username x = u_username ?r)
                    \<or> (\<exists>x \<in> set (tbl_users (conn s)). u_email x = u_email ?r)"
    by simp
  from insert_user_duplicate[OF dup] obtain v where v: "insert_user ?r (conn s) = Inl v"
    and u: "the role \<in> {''admin'', ''teacher'', ''student''} \<longrightarrow>
                 v = UNIQUE ''users.username'' \<or> v = UNIQUE ''users.email''"
    by auto
  from a v have "add_user H username password role name email phone grade_level
                   assigned_teacher courses s
              = (Inl (ValueError (''User creation failed: '' @ str_violation v)), s)"
    by (auto simp: add_user_def)
  with u show "\<exists>v. add_user H username password role name email phone grade_level
                      assigned_teacher courses s
              = (Inl (ValueError (''User creation failed: '' @ str_violation v)), s)
            \<and> (the role \<in> {''admin'', ''teacher'', ''student''} \<longrightarrow>
                 v = UNIQUE ''users.username'' \<or> v = UNIQUE ''users.email'')"
    by blast
qed

text \<open>
  Nobody is logged in in a fresh process, and teacher t2 is no admin: permission errors.
  Under the admin, the email \<open>nope\<close> and the phone \<open>12345\<close> are refused, and so are a second
  user t1 and a second user with the email of t2.
\<close>

theorem add_user_rejections_witness:
  "lacks_role ''admin'' start
   \<and> add_user sha256_examples (Some ''t3'') (Some ''pw1'') (Some ''teacher'') (Some ''Ted'')
       (Some ''t3@school.edu'') None None None None start
     = (Inl (PermissionError ''Admin access required''), start)
   \<and> lacks_role ''admin'' teacher_school
   \<and> add_user sha256_examples (Some ''t3'') (Some ''pw1'') (Some ''teacher'') (Some ''Ted'')
       (Some ''t3@school.edu'') None None None None teacher_school
     = (Inl (PermissionError ''Admin access required''), teacher_school)
   \<and> \<not> lacks_role ''admin'' admin_school
   \<and> \<not> validate_email ''nope''
   \<and> (\<exists>m \<in> {''Missing required fields'', ''Invalid email format'', ''Invalid phone format''}.
        add_user sha256_examples (Some ''t3'') (Some ''pw1'') (Some ''teacher'') (Some ''Ted'')
          (Some ''nope'') None None None None admin_school
        = (Inl (ValueError m), admin_school))
   \<and> \<not> validate_phone (Some ''12345'')
   \<and> (\<exists>m \<in> {''Missing required fields'', ''Invalid email format'', ''Invalid phone format''}.
        add_user sha256_examples (Some ''t3'') (Some ''pw1'') (Some ''teacher'') (Some ''Ted'')
          (Some ''t3@school.edu'') (Some ''12345'') None None None admin_school
        = (Inl (ValueError m), admin_school))
   \<and> (\<exists>u \<in> set (tbl_users (conn admin_school)). u_username u = ''t1'')
   \<and> (\<exists>v \<in> {UNIQUE ''users.username'', UNIQUE ''users.email''}.
        add_user sha256_examples (Some ''t1'') (Some ''pw1'') (Some ''teacher'') (Some ''Ted'')
          (Some ''t3@school.edu'') None None None None admin_school
        = (Inl (ValueError (''User creation failed: '' @ str_violation v)), admin_school))
   \<and> (\<exists>u \<in> set (tbl_users (conn admin_school)). u_email u = ''t2@school.edu'')
   \<and> (\<exists>v \<in> {UNIQUE ''users.username'', UNIQUE ''users.email''}.
        add_user sha256_examples (Some ''t3'') (Some ''pw1'') (Some ''student'') (Some ''Ted'')
          (Some ''t2@school.edu'') None (Some 9) None None admin_school
        = (Inl (ValueError (''User creation failed: '' @ str_violation v)), admin_school))"
proof -
  have p1: "lacks_role ''admin'' start" by code_simp
  have p2: "lacks_role ''admin'' teacher_school" by code_simp
  have adm: "\<not> lacks_role ''admin'' admin_school" by code_simp
  have e1: "\<not> validate_email ''nope''" by code_simp
  have e2: "validate_email ''t3@school.edu''" by code_simp
  have e3: "validate_email ''t2@school.edu''" by code_simp
  have ph: "\<not> validate_phone (Some ''12345'')" by code_simp
  have d1: "\<exists>u \<in> set (tbl_users (conn admin_school)). u_username u = ''t1''" by code_simp
  have d2: "\<exists>u \<in> set (tbl_users (conn admin_school)). u_email u = ''t2@school.edu''"
    by code_simp
  note r = add_user_rejections[where H = sha256_examples and password = "Some ''pw1''"
             and name = "Some ''Ted''" and assigned_teacher = None and courses = None]
  have c1: "add_user sha256_examples (Some ''t3'') (Some ''pw1'') (Some ''teacher'')
              (Some ''Ted'') (Some ''t3@school.edu'') None None None None start
            = (Inl (PermissionError ''Admin access required''), start)"
    using p1 r[of start "Some ''t3''" "Some ''teacher''" "Some ''t3@school.edu''" None None]
    by blast
  have c2: "add_user sha256_examples (Some ''t3'') (Some ''pw1'') (Some ''teacher'')
              (Some ''Ted'') (Some ''t3@school.edu'') None None None None teacher_school
            = (Inl (PermissionError ''Admin access required''), teacher_school)"
    using p2
      r[of teacher_school "Some ''t3''" "Some ''teacher''" "Some ''t3@school.edu''" None None]
    by blast
  have c3: "\<exists>m \<in> {''Missing required fields'', ''Invalid email format'',
                   ''Invalid phone format''}.
        add_user sha256_examples (Some ''t3'') (Some ''pw1'') (Some ''teacher'') (Some ''Ted'')
          (Some ''nope'') None None None None admin_school
        = (Inl (ValueError m), admin_school)"
    using adm e1 r[of admin_school "Some ''t3''" "Some ''teacher''" "Some ''nope''" None None]
    by simp
  have c4: "\<exists>m \<in> {''Missing required fields'', ''Invalid email format'',
                   ''Invalid phone format''}.
        add_user sha256_examples (Some ''t3'') (Some ''pw1'') (Some ''teacher'') (Some ''Ted'')
          (Some ''t3@school.edu'') (Some ''12345'') None None None admin_school
        = (Inl (ValueError m), admin_school)"
    using adm ph
      r[of admin_school "Some ''t3''" "Some ''teacher''" "Some ''t3@school.edu''"
           "Some ''12345''" None]
    by (simp add: truthy_def)
  have c5: "\<exists>v \<in> {UNIQUE ''users.username'', UNIQUE ''users.email''}.
        add_user sha256_examples (Some ''t1'') (Some ''pw1'') (Some ''teacher'') (Some ''Ted'')
          (Some ''t3@school.edu'') None None None None admin_school
        = (Inl (ValueError (''User creation failed: '' @ str_violation v)), admin_school)"
    using adm e2 d1
      r[of admin_school "Some ''t1''" "Some ''teacher''" "Some ''t3@school.edu''" None None]
    by (auto simp: truthy_def)
  have c6: "\<exists>v \<in> {UNIQUE ''users.username'', UNIQUE ''users.email''}.
        add_user sha256_examples (Some ''t3'') (Some ''pw1'') (Some ''student'') (Some ''Ted'')
          (Some ''t2@school.edu'') None (Some 9) None None admin_school
        = (Inl (ValueError (''User creation failed: '' @ str_violation v)), admin_school)"
    using adm e3 d2
      r[of admin_school "Some ''t3''" "Some ''student''" "Some ''t2@school.edu''" None
           "Some 9"]
    by (auto simp: truthy_def)
  show ?thesis
    using p1 p2 adm e1 ph d1 d2 c1 c2 c3 c4 c5 c6 by blast
qed


text \<open>
  C4. A call of \<open>add_user\<close> with role teacher that returns has appended to \<open>courses\<close> one row
  for each entry of the comma-separated list that is not empty once stripped, in the
  order of the list, named by the stripped entry, owned by the new teacher and with 3
  credits, and has committed; no list, or an empty one, appends nothing. For the list
  \<open>Math, Science\<close> these are the two rows Math and Science.
\<close>

theorem add_user_teacher_creates_courses:
  assumes "add_user H username password (Some ''teacher'') name email phone grade_level
             assigned_teacher courses s = (Inr True, s')"
  shows "\<exists>new. tbl_courses (conn s') = tbl_courses (conn s) @ new
           \<and> map (\<lambda>c. (c_course_name c, c_teacher_username c, c_credits c)) new
              = map (\<lambda>n. (n, username, 3))
                    (filter (\<lambda>n. n \<noteq> [])
                       (map strip (split_comma (case courses of None \<Rightarrow> [] | Some cs \<Rightarrow> cs))))
           \<and> (courses = Some ''Math, Science'' \<longrightarrow>
                map (\<lambda>c. (c_course_name c, c_teacher_username c, c_credits c)) new
                  = [(''Math'', username, 3), (''Science'', username, 3)])
           \<and> committed s' = conn s'"
proof -
  let ?f = "\<lambda>course_name db. if strip course_name \<noteq> []
                               then insert_course (strip course_name) (the username) db else db"
  let ?key = "\<lambda>c. (c_course_name c, c_teacher_username c, c_credits c)"
  let ?list = "case courses of None \<Rightarrow> [] | Some cs \<Rightarrow> cs"
  from add_user_success[OF assms] obtain db1 where
    ins: "insert_user \<lparr>u_username = the username, u_password = hash_password H (the password),
                       u_role = the (Some ''teacher''), u_name = the name, u_email = the email,
                       u_phone = phone\<rparr> (conn s) = Inr db1"
    and tu: "truthy username"
    and com: "committed s' = conn s'"
    and conn': "conn s' = (if truthy courses then fold ?f (split_comma (the courses)) db1 else db1)"
    by auto
  from tu have user: "Some (the username) = username"
    by (cases username) (simp_all add: truthy_def)
  from insert_user_Inr[OF ins] have db1: "tbl_courses db1 = tbl_courses (conn s)"
    by simp
  have math: "map strip (split_comma ''Math, Science'') = [''Math'', ''Science'']"
    by code_simp
  have "\<exists>new. tbl_courses (conn s') = tbl_courses (conn s) @ new
           \<and> map ?key new
              = map (\<lambda>n. (n, Some (the username), 3))
                    (filter (\<lambda>n. n \<noteq> []) (map strip (split_comma ?list)))"
  proof (cases "truthy courses")
    case True
    then have l: "?list = the courses" by (cases courses) (simp_all add: truthy_def)
    from fold_insert_course_rows[of "the username" "split_comma (the courses)" db1]
    show ?thesis using True conn' db1 l by simp
  next
    case False
    then have "?list = []" by (cases courses) (simp_all add: truthy_def)
    moreover have "strip [] = []" by (simp add: strip_def)
    ultimately show ?thesis using False conn' db1 by simp
  qed
  then obtain new where
    n1: "tbl_courses (conn s') = tbl_courses (conn s) @ new"
    and n2: "map ?key new = map (\<lambda>n. (n, Some (the username), 3))
                    (filter (\<lambda>n. n \<noteq> []) (map strip (split_comma ?list)))"
    by blast
  from n2 have n3: "map ?key new = map (\<lambda>n. (n, username, 3))
                    (filter (\<lambda>n. n \<noteq> []) (map strip (split_comma ?list)))"
    by (simp only: user)
  have n4: "courses = Some ''Math, Science'' \<longrightarrow>
                map ?key new = [(''Math'', username, 3), (''Science'', username, 3)]"
  proof
    assume c: "courses = Some ''Math, Science''"
    then have "?list = ''Math, Science''" by simp
    with n3 math show "map ?key new = [(''Math'', username, 3), (''Science'', username, 3)]"
      by simp
  qed
  show ?thesis
    by (rule exI[of _ new]) (intro conjI n1 n3 n4 com)
qed

text \<open>
  The admin creates teacher t3 with the list \<open>Math, Science\<close>: after the three courses
  that exist come the two new ones.
\<close>

theorem add_user_teacher_creates_courses_witness:
  "fst (add_user sha256_examples (Some ''t3'') (Some ''pw1'') (Some ''teacher'') (Some ''Ted'')
          (Some ''t3@school.edu'') None None None (Some ''Math, Science'') admin_school)
     = Inr True
   \<and> map (\<lambda>c. (c_course_name c, c_teacher_username c, c_credits c))
         (drop 3 (tbl_courses (conn (snd
            (add_user sha256_examples (Some ''t3'') (Some ''pw1'') (Some ''teacher'')
               (Some ''Ted'') (Some ''t3@school.edu'') None None None (Some ''Math, Science'')
               admin_school)))))
     = [(''Math'', Some ''t3'', 3), (''Science'', Some ''t3'', 3)]"
proof -
  let ?call = "add_user sha256_examples (Some ''t3'') (Some ''pw1'') (Some ''teacher'')
                 (Some ''Ted'') (Some ''t3@school.edu'') None None None (Some ''Math, Science'')
                 admin_school"
  have ok: "fst ?call = Inr True" by code_simp
  then have eq: "?call = (Inr True, snd ?call)" by (metis prod.collapse)
  have len: "length (tbl_courses (conn admin_school)) = 3" by code_simp
  from add_user_teacher_creates_courses[OF eq] obtain new where
    1: "tbl_courses (conn (snd ?call)) = tbl_courses (conn admin_school) @ new"
    and 2: "map (\<lambda>c. (c_course_name c, c_teacher_username c, c_credits c)) new
            = [(''Math'', Some ''t3'', 3), (''Science'', Some ''t3'', 3)]"
    by (elim exE conjE) simp
  from 1 len have "drop 3 (tbl_courses (conn (snd ?call))) = new" by simp
  with ok 2 show ?thesis by simp
qed


text \<open>
  C3, as the code has it. A call of \<open>add_user\<close> with role student, a grade level that is
  neither \<open>None\<close> nor 0 and an assigned teacher that is neither \<open>None\<close> nor empty, when it
  returns, has appended to \<open>enrollments\<close> one row for each course whose teacher is the
  assigned teacher at the time of the call, each with the new username and a NULL grade,
  and has committed. When every enrollment before the call named an existing student,
  these rows are all the enrollments of the new student.
\<close>

theorem add_user_student_auto_enrolls:
  assumes "add_user H (Some U) password (Some ''student'') name email phone (Some g)
             (Some t) courses s = (Inr True, s')"
    and "g \<noteq> 0" and "t \<noteq> []"
  shows "\<exists>new. tbl_enrollments (conn s') = tbl_enrollments (conn s) @ new
           \<and> map (\<lambda>e. (e_student_username e, e_course_id e, e_grade e)) new
              = map (\<lambda>c. (U, c_course_id c, None))
                    (filter (\<lambda>c. c_teacher_username c = Some t) (tbl_courses (conn s)))
           \<and> (enrollments_are_of_students (conn s) \<longrightarrow>
                filter (\<lambda>e. e_student_username e = U) (tbl_enrollments (conn s')) = new)
           \<and> committed s' = conn s'"
proof -
  let ?key = "\<lambda>e. (e_student_username e, e_course_id e, e_grade e)"
  let ?cs = "filter (\<lambda>c. c_teacher_username c = Some t) (tbl_courses (conn s))"
  from add_user_success[OF assms(1)] assms(2,3) obtain db1 where
    ins: "insert_user \<lparr>u_username = U, u_password = hash_password H (the password),
                       u_role = ''student'', u_name = the name, u_email = the email,
                       u_phone = phone\<rparr> (conn s) = Inr db1"
    and com: "committed s' = conn s'"
    and conn': "conn s' =
         fold (\<lambda>course db. insert_enrollment U course db)
              (map c_course_id (filter (\<lambda>c. c_teacher_username c = Some t) (tbl_courses db1)))
              (db1\<lparr>tbl_students := tbl_students db1 @
                     [\<lparr>s_student_id = ''STU'' @ zfill 4 (last4 U) @ fmt_02d g,
                       s_username = U, s_grade_level = g,
                       s_assigned_teacher = Some t\<rparr>]\<rparr>)"
    by (auto simp: truthy_def truthy_int_def Let_def)
  from insert_user_Inr[OF ins] have
    db1: "tbl_courses db1 = tbl_courses (conn s)" "tbl_enrollments db1 = tbl_enrollments (conn s)"
    and fresh: "\<forall>x \<in> set (tbl_users (conn s)). u_username x \<noteq> U"
    by simp_all
  from fold_insert_enrollment_rows[of U "map c_course_id ?cs"
         "db1\<lparr>tbl_students := tbl_students db1 @
                 [\<lparr>s_student_id = ''STU'' @ zfill 4 (last4 U) @ fmt_02d g,
                   s_username = U, s_grade_level = g, s_assigned_teacher = Some t\<rparr>]\<rparr>"]
  obtain new where
    n1: "tbl_enrollments (conn s') = tbl_enrollments (conn s) @ new"
    and n2: "map ?key new = map (\<lambda>c. (U, c, None)) (map c_course_id ?cs)"
    using conn' db1 by auto
  from n2 have n3: "map ?key new = map (\<lambda>c. (U, c_course_id c, None)) ?cs"
    by (simp add: comp_def)
  have all_U: "\<forall>e \<in> set new. e_student_username e = U"
  proof
    fix e assume "e \<in> set new"
    then have "?key e \<in> set (map ?key new)" by simp
    with n3 show "e_student_username e = U" by auto
  qed
  have n4: "enrollments_are_of_students (conn s) \<longrightarrow>
              filter (\<lambda>e. e_student_username e = U) (tbl_enrollments (conn s')) = new"
  proof
    assume inv: "enrollments_are_of_students (conn s)"
    have "\<forall>e \<in> set (tbl_enrollments (conn s)). e_student_username e \<noteq> U"
      using inv fresh unfolding enrollments_are_of_students_def by metis
    then have "filter (\<lambda>e. e_student_username e = U) (tbl_enrollments (conn s)) = []"
      by (simp add: filter_empty_conv)
    moreover have "filter (\<lambda>e. e_student_username e = U) new = new"
      using all_U by (simp add: filter_id_conv)
    ultimately show "filter (\<lambda>e. e_student_username e = U) (tbl_enrollments (conn s')) = new"
      using n1 by simp
  qed
  from n1 n3 n4 com show ?thesis by blast
qed

text \<open>
  The admin creates student s1, grade 9, assigned to t1, who teaches courses 1 and 2: the
  enrollments of s1 are these two, ungraded.
\<close>

theorem add_user_student_auto_enrolls_witness:
  "fst (add_user sha256_examples (Some ''s1'') (Some ''pw2'') (Some ''student'') (Some ''Sam'')
          (Some ''s1@school.edu'') None (Some 9) (Some ''t1'') None admin_school) = Inr True
   \<and> enrollments_are_of_students (conn admin_school)
   \<and> map (\<lambda>e. (e_student_username e, e_course_id e, e_grade e))
         (filter (\<lambda>e. e_student_username e = ''s1'')
            (tbl_enrollments (conn (snd
               (add_user sha256_examples (Some ''s1'') (Some ''pw2'') (Some ''student'')
                  (Some ''Sam'') (Some ''s1@school.edu'') None (Some 9) (Some ''t1'') None
                  admin_school)))))
     = [(''s1'', 1, None), (''s1'', 2, None)]"
proof -
  let ?call = "add_user sha256_examples (Some ''s1'') (Some ''pw2'') (Some ''student'')
                 (Some ''Sam'') (Some ''s1@school.edu'') None (Some 9) (Some ''t1'') None
                 admin_school"
  have ok: "fst ?call = Inr True" by code_simp
  then have eq: "?call = (Inr True, snd ?call)" by (metis prod.collapse)
  have inv: "enrollments_are_of_students (conn admin_school)" by code_simp
  have cs: "map (\<lambda>c. (''s1'', c_course_id c, None :: real option))
              (filter (\<lambda>c. c_teacher_username c = Some ''t1'') (tbl_courses (conn admin_school)))
            = [(''s1'', 1, None), (''s1'', 2, None)]"
    by code_simp
  have g: "(9::int) \<noteq> 0" by simp
  have t: "''t1'' \<noteq> []" by simp
  from add_user_student_auto_enrolls[OF eq g t] inv obtain new where
    1: "filter (\<lambda>e. e_student_username e = ''s1'') (tbl_enrollments (conn (snd ?call))) = new"
    and 2: "map (\<lambda>e. (e_student_username e, e_course_id e, e_grade e)) new
            = map (\<lambda>c. (''s1'', c_course_id c, None))
                  (filter (\<lambda>c. c_teacher_username c = Some ''t1'')
                          (tbl_courses (conn admin_school)))"
    by blast
  have "map (\<lambda>e. (e_student_username e, e_course_id e, e_grade e))
          (filter (\<lambda>e. e_student_username e = ''s1'') (tbl_enrollments (conn (snd ?call))))
        = [(''s1'', 1, None), (''s1'', 2, None)]"
    unfolding 1 2 by (rule cs)
  with ok inv show ?thesis by blast
qed

text \<open>
  C3 as stated fails: a student created without a grade level gets no row in \<open>students\<close>
  and no enrollment, although the assigned teacher t1 teaches two courses.
\<close>

theorem add_user_student_auto_enrolls_counterexample:
  "fst (add_user sha256_examples (Some ''s2'') (Some ''pw2'') (Some ''student'') (Some ''Sue'')
          (Some ''s2@school.edu'') None None (Some ''t1'') None admin_school) = Inr True
   \<and> (\<exists>c \<in> set (tbl_courses (conn admin_school)). c_teacher_username c = Some ''t1'')
   \<and> \<not> (\<exists>e \<in> set (tbl_enrollments (conn (snd
            (add_user sha256_examples (Some ''s2'') (Some ''pw2'') (Some ''student'')
               (Some ''Sue'') (Some ''s2@school.edu'') None None (Some ''t1'') None
               admin_school)))).
          e_student_username e = ''s2'')"
  by code_simp


section \<open>What every call preserves\<close>

lemma insert_user_store_ok:
  assumes "insert_user r db = Inr db1"
  shows "students_are_student_users db \<Longrightarrow> students_are_student_users db1"
    and "enrollments_are_of_students db \<Longrightarrow> enrollments_are_of_students db1"
    and "r \<in> set (tbl_users db1)"
  using insert_user_Inr[OF assms]
  by (auto simp: students_are_student_users_def enrollments_are_of_students_def)

lemma fold_insert_enrollment_store_ok:
  assumes "\<exists>u \<in> set (tbl_users db). u_username u = U \<and> u_role u = ''student''"
  shows "students_are_student_users db \<Longrightarrow>
           students_are_student_users (fold (\<lambda>course db. insert_enrollment U course db) cs db)"
    and "enrollments_are_of_students db \<Longrightarrow>
           enrollments_are_of_students (fold (\<lambda>course db. insert_enrollment U course db) cs db)"
proof -
  show "students_are_student_users db \<Longrightarrow>
           students_are_student_users (fold (\<lambda>course db. insert_enrollment U course db) cs db)"
    using fold_insert_enrollment_tables[of U cs db]
    by (simp add: students_are_student_users_def)
next
  assume inv: "enrollments_are_of_students db"
  from fold_insert_enrollment_rows[of U cs db] obtain new where
    1: "tbl_enrollments (fold (\<lambda>course db. insert_enrollment U course db) cs db)
        = tbl_enrollments db @ new"
    and 2: "map (\<lambda>e. (e_student_username e, e_course_id e, e_grade e)) new
            = map (\<lambda>c. (U, c, None)) cs"
    by (elim exE conjE)
  have all_U: "\<forall>e \<in> set new. e_student_username e = U"
  proof
    fix e assume "e \<in> set new"
    then have "(e_student_username e, e_course_id e, e_grade e)
               \<in> set (map (\<lambda>e. (e_student_username e, e_course_id e, e_grade e)) new)"
      by simp
    with 2 show "e_student_username e = U" by auto
  qed
  show "enrollments_are_of_students (fold (\<lambda>course db. insert_enrollment U course db) cs db)"
    unfolding enrollments_are_of_students_def
  proof
    fix e
    assume "e \<in> set (tbl_enrollments (fold (\<lambda>course db. insert_enrollment U course db) cs db))"
    with 1 have "e \<in> set (tbl_enrollments db) \<or> e \<in> set new" by simp
    then show "\<exists>u \<in> set (tbl_users (fold (\<lambda>course db. insert_enrollment U course db) cs db)).
                 u_username u = e_student_username e \<and> u_role u = ''student''"
    proof
      assume "e \<in> set (tbl_enrollments db)"
      with inv show ?thesis
        using fold_insert_enrollment_tables[of U cs db]
        by (simp add: enrollments_are_of_students_def)
    next
      assume "e \<in> set new"
      with all_U have "e_student_username e = U" by simp
      with assms show ?thesis
        using fold_insert_enrollment_tables[of U cs db] by simp
    qed
  qed
qed

lemma fold_insert_course_store_ok:
  shows "students_are_student_users db \<Longrightarrow>
           students_are_student_users
             (fold (\<lambda>course_name db. if strip course_name \<noteq> []
                      then insert_course (strip course_name) U db else db) names db)"
    and "enrollments_are_of_students db \<Longrightarrow>
           enrollments_are_of_students
             (fold (\<lambda>course_name db. if strip course_name \<noteq> []
                      then insert_course (strip course_name) U db else db) names db)"
  using fold_insert_course_tables[of U names db]
  by (simp_all add: students_are_student_users_def enrollments_are_of_students_def)

text \<open>The three ways a call of \<open>add_user\<close> ends.\<close>

lemma add_user_cases:
  "snd (add_user H username password role name email phone grade_level assigned_teacher
          courses s) = s
   \<or> (\<exists>db1. insert_user \<lparr>u_username = the username,
                            u_password = hash_password H (the password),
                            u_role = the role, u_name = the name, u_email = the email,
                            u_phone = phone\<rparr> (conn s) = Inr db1
            \<and> snd (add_user H username password role name email phone grade_level
                     assigned_teacher courses s) = s\<lparr>conn := db1\<rparr>)
   \<or> fst (add_user H username password role name email phone grade_level assigned_teacher
          courses s) = Inr True"
  by (simp add: add_user_def split: sum.splits)

lemma add_user_store_ok:
  assumes ok: "store_ok s"
  shows "store_ok (snd (add_user H username password role name email phone grade_level
                          assigned_teacher courses s))"
proof -
  let ?call = "add_user H username password role name email phone grade_level
                 assigned_teacher courses s"
  let ?r = "\<lparr>u_username = the username, u_password = hash_password H (the password),
             u_role = the role, u_name = the name, u_email = the email, u_phone = phone\<rparr>"
  from ok have s1: "students_are_student_users (conn s)"
    and s2: "students_are_student_users (committed s)"
    and e1: "enrollments_are_of_students (conn s)"
    and e2: "enrollments_are_of_students (committed s)"
    by (simp_all add: store_ok_def)
  from add_user_cases[of H username password role name email phone grade_level
         assigned_teacher courses s]
  consider (same) "snd ?call = s"
    | (partial) db1 where "insert_user ?r (conn s) = Inr db1" "snd ?call = s\<lparr>conn := db1\<rparr>"
    | (returned) "fst ?call = Inr True"
    by (elim disjE exE conjE)
  then show ?thesis
  proof cases
    case same
    with ok show ?thesis by simp
  next
    case (partial db1)
    from insert_user_store_ok(1,2)[OF partial(1)] s1 e1 s2 e2 partial(2)
    show ?thesis by (simp add: store_ok_def)
  next
    case returned
    then have eq: "?call = (Inr True, snd ?call)" by (metis prod.collapse)
    from add_user_success[OF eq] obtain db1 where
      ins: "insert_user ?r (conn s) = Inr db1"
      and com: "committed (snd ?call) = conn (snd ?call)"
      and conn': "conn (snd ?call) =
             (if role = Some ''student'' \<and> truthy_int grade_level then
                (let db2 = db1\<lparr>tbl_students := tbl_students db1 @
                            [\<lparr>s_student_id = ''STU'' @ zfill 4 (last4 (the username))
                                         @ fmt_02d (the grade_level),
                              s_username = the username, s_grade_level = the grade_level,
                              s_assigned_teacher = assigned_teacher\<rparr>]\<rparr>
                 in if truthy assigned_teacher
                    then fold (\<lambda>course db. insert_enrollment (the username) course db)
                               (map c_course_id
                                  (filter (\<lambda>c. c_teacher_username c = assigned_teacher)
                                          (tbl_courses db2)))
                               db2
                    else db2)
              else if role = Some ''teacher'' \<and> truthy courses then
                 fold (\<lambda>course_name db.
                          if strip course_name \<noteq> []
                          then insert_course (strip course_name) (the username) db else db)
                       (split_comma (the courses)) db1
              else db1)"
      by (elim exE conjE)
    note d1 = insert_user_store_ok[OF ins]
    have sd1: "students_are_student_users db1" using d1(1) s1 .
    have ed1: "enrollments_are_of_students db1" using d1(2) e1 .
    have both: "students_are_student_users (conn (snd ?call))
                \<and> enrollments_are_of_students (conn (snd ?call))"
    proof (cases "role = Some ''student'' \<and> truthy_int grade_level")
      case True
      let ?db2 = "db1\<lparr>tbl_students := tbl_students db1 @
                            [\<lparr>s_student_id = ''STU'' @ zfill 4 (last4 (the username))
                                         @ fmt_02d (the grade_level),
                              s_username = the username, s_grade_level = the grade_level,
                              s_assigned_teacher = assigned_teacher\<rparr>]\<rparr>"
      from True d1(3) have user:
        "\<exists>u \<in> set (tbl_users ?db2). u_username u = the username \<and> u_role u = ''student''"
        by (auto intro!: bexI[of _ ?r])
      have sd2: "students_are_student_users ?db2"
        using sd1 user by (auto simp: students_are_student_users_def)
      have ed2: "enrollments_are_of_students ?db2"
        using ed1 by (simp add: enrollments_are_of_students_def)
      show ?thesis
      proof (cases "truthy assigned_teacher")
        case at: True
        from fold_insert_enrollment_store_ok[OF user] sd2 ed2 True at conn'
        show ?thesis by (simp add: Let_def)
      next
        case False
        with sd2 ed2 True conn' show ?thesis by (simp add: Let_def)
      qed
    next
      case False
      show ?thesis
      proof (cases "role = Some ''teacher'' \<and> truthy courses")
        case True
        have "conn (snd ?call) =
                fold (\<lambda>course_name db.
                        if strip course_name \<noteq> []
                        then insert_course (strip course_name) (the username) db else db)
                     (split_comma (the courses)) db1"
          unfolding conn' if_not_P[OF False] using True by (rule if_P)
        with fold_insert_course_store_ok[of db1 "the username" "split_comma (the courses)"]
          sd1 ed1
        show ?thesis by simp
      next
        case nt: False
        have "conn (snd ?call) = db1"
          unfolding conn' if_not_P[OF False] using nt by (rule if_not_P)
        with sd1 ed1 show ?thesis by simp
      qed
    qed
    with com show ?thesis by (simp add: store_ok_def)
  qed
qed

lemma enroll_student_store_ok:
  assumes "store_ok s"
  shows "store_ok (snd (enroll_student student_username course_id s))"
  using assms
  by (auto simp: enroll_student_def store_ok_def commit_def insert_enrollment_def find_eq_None
        students_are_student_users_def enrollments_are_of_students_def)

lemma assign_grade_store_ok:
  assumes "store_ok s"
  shows "store_ok (snd (assign_grade student_username course_id grade s))"
  using assms
  by (auto simp: assign_grade_def store_ok_def commit_def update_grade_def
        students_are_student_users_def enrollments_are_of_students_def)

lemma mark_attendance_store_ok:
  assumes "store_ok s"
  shows "store_ok (snd (mark_attendance today student_username course_id status s))"
  using assms
  by (auto simp: mark_attendance_def store_ok_def commit_def insert_attendance_def
        students_are_student_users_def enrollments_are_of_students_def)

lemma add_timetable_store_ok:
  assumes "store_ok s"
  shows "store_ok (snd (add_timetable course_id day start_time end_time s))"
  using assms
  by (auto simp: add_timetable_def store_ok_def commit_def insert_timetable_def
        students_are_student_users_def enrollments_are_of_students_def)

lemma login_store_ok:
  assumes "store_ok s"
  shows "store_ok (snd (login H username password s))"
  using assms by (auto simp: login_def store_ok_def split: option.splits)

lemma export_report_store_ok:
  assumes "store_ok s"
  shows "store_ok (snd (export_report F fetch_order open_error encode_error student_username
                          filename s))"
  using assms by (auto simp: export_report_def store_ok_def split: option.splits)

lemma run_call_store_ok: "store_ok s \<Longrightarrow> store_ok (run_call H F c s)"
  by (cases c)
     (simp_all add: login_store_ok add_user_store_ok enroll_student_store_ok
        assign_grade_store_ok mark_attendance_store_ok add_timetable_store_ok
        export_report_store_ok)

lemma run_calls_store_ok: "store_ok s \<Longrightarrow> store_ok (run_calls H F cs s)"
  unfolding run_calls_def
  by (induction cs arbitrary: s) (simp_all add: run_call_store_ok)

lemma init_store_ok: "store_ok (init H fs)"
  by (simp add: init_def initialize_admin_def insert_user_def empty_db_def commit_def
        store_ok_def students_are_student_users_def enrollments_are_of_students_def)

text \<open>
  C2, as the code has it. After any sequence of calls from a fresh process, every row of
  \<open>students\<close>, pending or committed, belongs to a user whose role is student. And a call
  of \<open>add_user\<close> with role student and a grade level that is neither \<open>None\<close> nor 0, when it
  returns, has committed the user with role student together with its row in \<open>students\<close>.
\<close>

theorem student_rows_belong_to_student_users:
  "students_are_student_users (conn (run_calls H F cs (init H fs)))
   \<and> students_are_student_users (committed (run_calls H F cs (init H fs)))
   \<and> (add_user H (Some U) password (Some ''student'') name email phone (Some g)
         assigned_teacher courses s = (Inr True, s') \<and> g \<noteq> 0 \<longrightarrow>
        (\<exists>st \<in> set (tbl_students (committed s')). s_username st = U \<and> s_grade_level st = g)
        \<and> (\<exists>u \<in> set (tbl_users (committed s')). u_username u = U \<and> u_role u = ''student''))"
proof (intro conjI impI)
  have "store_ok (run_calls H F cs (init H fs))"
    by (rule run_calls_store_ok[OF init_store_ok])
  then show "students_are_student_users (conn (run_calls H F cs (init H fs)))"
    and "students_are_student_users (committed (run_calls H F cs (init H fs)))"
    by (simp_all add: store_ok_def)
next
  assume a: "add_user H (Some U) password (Some ''student'') name email phone (Some g)
               assigned_teacher courses s = (Inr True, s') \<and> g \<noteq> 0"
  let ?r = "\<lparr>u_username = U, u_password = hash_password H (the password),
             u_role = ''student'', u_name = the name, u_email = the email, u_phone = phone\<rparr>"
  let ?st = "\<lparr>s_student_id = ''STU'' @ zfill 4 (last4 U) @ fmt_02d g,
              s_username = U, s_grade_level = g, s_assigned_teacher = assigned_teacher\<rparr>"
  from a have call: "add_user H (Some U) password (Some ''student'') name email phone (Some g)
               assigned_teacher courses s = (Inr True, s')" and g: "g \<noteq> 0"
    by simp_all
  from add_user_success[OF call] g obtain db1 where
    ins: "insert_user ?r (conn s) = Inr db1"
    and com: "committed s' = conn s'"
    and conn': "conn s' =
         (if truthy assigned_teacher
          then fold (\<lambda>course db. insert_enrollment U course db)
                 (map c_course_id
                    (filter (\<lambda>c. c_teacher_username c = assigned_teacher) (tbl_courses db1)))
                 (db1\<lparr>tbl_students := tbl_students db1 @ [?st]\<rparr>)
          else db1\<lparr>tbl_students := tbl_students db1 @ [?st]\<rparr>)"
    by (auto simp: truthy_int_def Let_def)
  have users: "tbl_users (conn s') = tbl_users db1"
    and studs: "tbl_students (conn s') = tbl_students db1 @ [?st]"
    using conn' fold_insert_enrollment_tables[of U
        "map c_course_id (filter (\<lambda>c. c_teacher_username c = assigned_teacher) (tbl_courses db1))"
        "db1\<lparr>tbl_students := tbl_students db1 @ [?st]\<rparr>"]
    by (simp_all split: if_splits)
  from insert_user_store_ok(3)[OF ins] have "?r \<in> set (tbl_users (committed s'))"
    using users com by simp
  then show "\<exists>u \<in> set (tbl_users (committed s')). u_username u = U \<and> u_role u = ''student''"
    by (rule bexI[rotated]) simp
  have "?st \<in> set (tbl_students (committed s'))" using studs com by simp
  then show "\<exists>st \<in> set (tbl_students (committed s')). s_username st = U \<and> s_grade_level st = g"
    by (rule bexI[rotated]) simp
qed

text \<open>
  After the admin created two teachers and student s1 and t2 logged in, the one row of
  \<open>students\<close> is that of s1, a user with role student, created with grade level 9.
\<close>

theorem student_rows_belong_to_student_users_witness:
  "students_are_student_users
     (conn (run_calls sha256_examples str_float_examples (admin_calls @ teacher_calls)
              (init sha256_examples Map.empty)))
   \<and> fst (add_user sha256_examples (Some ''s1'') (Some ''pw2'') (Some ''student'') (Some ''Sam'')
            (Some ''s1@school.edu'') None (Some 9) (Some ''t1'') None admin_school) = Inr True
   \<and> (\<exists>st \<in> set (tbl_students (committed (snd
          (add_user sha256_examples (Some ''s1'') (Some ''pw2'') (Some ''student'') (Some ''Sam'')
             (Some ''s1@school.edu'') None (Some 9) (Some ''t1'') None admin_school)))).
        s_username st = ''s1'' \<and> s_grade_level st = 9)
   \<and> (\<exists>u \<in> set (tbl_users (committed (snd
          (add_user sha256_examples (Some ''s1'') (Some ''pw2'') (Some ''student'') (Some ''Sam'')
             (Some ''s1@school.edu'') None (Some 9) (Some ''t1'') None admin_school)))).
        u_username u = ''s1'' \<and> u_role u = ''student'')"
proof -
  let ?call = "add_user sha256_examples (Some ''s1'') (Some ''pw2'') (Some ''student'')
                 (Some ''Sam'') (Some ''s1@school.edu'') None (Some 9) (Some ''t1'') None
                 admin_school"
  have ok: "fst ?call = Inr True" by code_simp
  then have eq: "?call = (Inr True, snd ?call)" by (metis prod.collapse)
  have g: "(9::int) \<noteq> 0" by simp
  note th = student_rows_belong_to_student_users[of sha256_examples str_float_examples
              "admin_calls @ teacher_calls" Map.empty "''s1''" "Some ''pw2''" "Some ''Sam''"
              "Some ''s1@school.edu''" None 9 "Some ''t1''" None admin_school "snd ?call"]
  from th have 1: "students_are_student_users
     (conn (run_calls sha256_examples str_float_examples (admin_calls @ teacher_calls)
              (init sha256_examples Map.empty)))"
    by (rule conjunct1)
  have 2:
    "(\<exists>st \<in> set (tbl_students (committed (snd ?call))).
        s_username st = ''s1'' \<and> s_grade_level st = 9)
     \<and> (\<exists>u \<in> set (tbl_users (committed (snd ?call))).
          u_username u = ''s1'' \<and> u_role u = ''student'')"
    by (rule mp[OF th[THEN conjunct2, THEN conjunct2]]) (rule conjI[OF eq g])
  show ?thesis
    by (rule conjI[OF 1], rule conjI[OF ok], rule 2)
qed

text \<open>
  C2 as stated fails: the admin creates a user with role student and no grade level; the
  call returns \<open>True\<close> and the user has no row in \<open>students\<close>.
\<close>

theorem student_rows_belong_to_student_users_counterexample:
  "student_row_iff_role (conn admin_school)
   \<and> fst (add_user sha256_examples (Some ''s2'') (Some ''pw2'') (Some ''student'') (Some ''Sue'')
            (Some ''s2@school.edu'') None None None None admin_school) = Inr True
   \<and> \<not> student_row_iff_role (conn (snd
          (add_user sha256_examples (Some ''s2'') (Some ''pw2'') (Some ''student'') (Some ''Sue'')
             (Some ''s2@school.edu'') None None None None admin_school)))
   \<and> (\<exists>u \<in> set (tbl_users (committed (snd
          (add_user sha256_examples (Some ''s2'') (Some ''pw2'') (Some ''student'') (Some ''Sue'')
             (Some ''s2@school.edu'') None None None None admin_school)))).
        u_username u = ''s2'' \<and> u_role u = ''student'')
   \<and> \<not> (\<exists>st \<in> set (tbl_students (committed (snd
          (add_user sha256_examples (Some ''s2'') (Some ''pw2'') (Some ''student'') (Some ''Sue'')
             (Some ''s2@school.edu'') None None None None admin_school)))).
        s_username st = ''s2'')"
  by code_simp


section \<open>assign_grade and mark_attendance\<close>

text \<open>
  C5, as the code has it. With a teacher logged in, for a course id that fits a 64-bit
  signed integer, and whatever the table of courses says about who teaches what:
  \<open>mark_attendance\<close> returns \<open>True\<close> for each of the statuses
  Present, Absent and Late; \<open>assign_grade\<close> returns \<open>True\<close> for a grade that is NULL or
  between 0 and 100; and when no enrollment has the given student and course,
  \<open>assign_grade\<close> returns \<open>True\<close> for any grade and leaves the enrollments as they were.
\<close>

theorem teacher_calls_need_no_ownership:
  assumes "\<not> lacks_role ''teacher'' s" and "fits_int64 course_id"
  shows "(status \<in> {''Present'', ''Absent'', ''Late''} \<longrightarrow>
            fst (mark_attendance today student_username course_id status
                   (s\<lparr>conn := (conn s)\<lparr>tbl_courses := any_courses\<rparr>\<rparr>)) = Inr True)
         \<and> (grade_check grade \<longrightarrow>
            fst (assign_grade student_username course_id grade
                   (s\<lparr>conn := (conn s)\<lparr>tbl_courses := any_courses\<rparr>\<rparr>)) = Inr True)
         \<and> (\<not> (\<exists>e \<in> set (tbl_enrollments (conn s)).
                  e_student_username e = student_username \<and> e_course_id e = course_id) \<longrightarrow>
            fst (assign_grade student_username course_id grade
                   (s\<lparr>conn := (conn s)\<lparr>tbl_courses := any_courses\<rparr>\<rparr>)) = Inr True
            \<and> tbl_enrollments (conn (snd (assign_grade student_username course_id grade
                   (s\<lparr>conn := (conn s)\<lparr>tbl_courses := any_courses\<rparr>\<rparr>))))
              = tbl_enrollments (conn s))"
proof -
  let ?s = "s\<lparr>conn := (conn s)\<lparr>tbl_courses := any_courses\<rparr>\<rparr>"
  from assms(1) have t: "\<not> lacks_role ''teacher'' ?s" by (simp add: lacks_role_def)
  note f = assms(2)
  have a: "status \<in> {''Present'', ''Absent'', ''Late''} \<longrightarrow>
            fst (mark_attendance today student_username course_id status ?s) = Inr True"
    using t f by (simp add: mark_attendance_def insert_attendance_def)
  have b: "grade_check grade \<longrightarrow>
            fst (assign_grade student_username course_id grade ?s) = Inr True"
    using t f by (simp add: assign_grade_def update_grade_def)
  have c: "\<not> (\<exists>e \<in> set (tbl_enrollments (conn s)).
                  e_student_username e = student_username \<and> e_course_id e = course_id) \<longrightarrow>
            fst (assign_grade student_username course_id grade ?s) = Inr True
            \<and> tbl_enrollments (conn (snd (assign_grade student_username course_id grade ?s)))
              = tbl_enrollments (conn s)"
  proof
    assume none: "\<not> (\<exists>e \<in> set (tbl_enrollments (conn s)).
                  e_student_username e = student_username \<and> e_course_id e = course_id)"
    then have same: "map (\<lambda>e. if e_student_username e = student_username
                                  \<and> e_course_id e = course_id
                               then e\<lparr>e_grade := grade\<rparr> else e) (tbl_enrollments (conn s))
                     = tbl_enrollments (conn s)"
      by (intro map_idI) auto
    from none have upd: "update_grade grade student_username course_id (conn ?s)
                         = Inr ((conn ?s)\<lparr>tbl_enrollments := tbl_enrollments (conn s)\<rparr>)"
      using same by (simp add: update_grade_def)
    show "fst (assign_grade student_username course_id grade ?s) = Inr True
            \<and> tbl_enrollments (conn (snd (assign_grade student_username course_id grade ?s)))
              = tbl_enrollments (conn s)"
      using t f upd by (simp add: assign_grade_def commit_def)
  qed
  from a b c show ?thesis by (intro conjI)
qed

text \<open>
  Teacher t2 is logged in and teaches course 3 only. For student s1 and course 1, taught
  by t1, t2 marks attendance and assigns the grade 85; for course 7, which does not exist
  and in which nobody is enrolled, t2 assigns the grade 150.
\<close>

theorem teacher_calls_need_no_ownership_witness:
  "\<not> lacks_role ''teacher'' teacher_school
   \<and> fits_int64 1 \<and> fits_int64 7
   \<and> \<not> (\<exists>c \<in> set (tbl_courses (conn teacher_school)).
          c_course_id c = 1 \<and> c_teacher_username c = Some ''t2'')
   \<and> fst (mark_attendance ''2024-01-08'' ''s1'' 1 ''Present'' teacher_school) = Inr True
   \<and> fst (assign_grade ''s1'' 1 (Some 85) teacher_school) = Inr True
   \<and> \<not> (\<exists>e \<in> set (tbl_enrollments (conn teacher_school)).
          e_student_username e = ''s1'' \<and> e_course_id e = 7)
   \<and> fst (assign_grade ''s1'' 7 (Some 150) teacher_school) = Inr True
   \<and> tbl_enrollments (conn (snd (assign_grade ''s1'' 7 (Some 150) teacher_school)))
     = tbl_enrollments (conn teacher_school)"
proof -
  have t: "\<not> lacks_role ''teacher'' teacher_school" by code_simp
  have o: "\<not> (\<exists>c \<in> set (tbl_courses (conn teacher_school)).
                c_course_id c = 1 \<and> c_teacher_username c = Some ''t2'')"
    by code_simp
  have n: "\<not> (\<exists>e \<in> set (tbl_enrollments (conn teacher_school)).
                e_student_username e = ''s1'' \<and> e_course_id e = 7)"
    by code_simp
  have same: "teacher_school\<lparr>conn := (conn teacher_school)
                \<lparr>tbl_courses := tbl_courses (conn teacher_school)\<rparr>\<rparr> = teacher_school"
    by simp
  have st: "''Present'' \<in> {''Present'', ''Absent'', ''Late''}" by simp
  have gc: "grade_check (Some 85)" by (simp add: grade_check_def)
  have f1: "fits_int64 1" and f7: "fits_int64 7" by (simp_all add: fits_int64_def)
  note th1 = teacher_calls_need_no_ownership[OF t f1, of "''Present''" "''2024-01-08''" "''s1''"
               "tbl_courses (conn teacher_school)" "Some 85", unfolded same]
  note th2 = teacher_calls_need_no_ownership[OF t f7, of "''Present''" "''2024-01-08''" "''s1''"
               "tbl_courses (conn teacher_school)" "Some 150", unfolded same]
  have 1: "fst (mark_attendance ''2024-01-08'' ''s1'' 1 ''Present'' teacher_school) = Inr True"
    by (rule mp[OF th1[THEN conjunct1] st])
  have 2: "fst (assign_grade ''s1'' 1 (Some 85) teacher_school) = Inr True"
    by (rule mp[OF th1[THEN conjunct2, THEN conjunct1] gc])
  have 3: "fst (assign_grade ''s1'' 7 (Some 150) teacher_school) = Inr True
           \<and> tbl_enrollments (conn (snd (assign_grade ''s1'' 7 (Some 150) teacher_school)))
             = tbl_enrollments (conn teacher_school)"
    by (rule mp[OF th2[THEN conjunct2, THEN conjunct2] n])
  show ?thesis
    by (rule conjI[OF t], rule conjI[OF f1], rule conjI[OF f7], rule conjI[OF o],
        rule conjI[OF 1], rule conjI[OF 2], rule conjI[OF n], rule 3)
qed

text \<open>
  C5 as stated fails: with teacher t2 logged in, the grade 150 for the enrollment of s1
  in course 1 and an attendance with no status selected both end in the store's
  \<open>IntegrityError\<close>, not in \<open>True\<close>.
\<close>

theorem teacher_calls_need_no_ownership_counterexample:
  "\<not> lacks_role ''teacher'' teacher_school
   \<and> (\<exists>e \<in> set (tbl_enrollments (conn teacher_school)).
        e_student_username e = ''s1'' \<and> e_course_id e = 1)
   \<and> assign_grade ''s1'' 1 (Some 150) teacher_school
     = (Inl (IntegrityError (CHECK ''enrollments'')), teacher_school)
   \<and> mark_attendance ''2024-01-08'' ''s1'' 1 [] teacher_school
     = (Inl (IntegrityError (CHECK ''attendance'')), teacher_school)"
proof -
  have t: "\<not> lacks_role ''teacher'' teacher_school" by code_simp
  have e: "\<exists>e \<in> set (tbl_enrollments (conn teacher_school)).
             e_student_username e = ''s1'' \<and> e_course_id e = 1"
    by code_simp
  have g: "\<not> grade_check (Some 150)" by (simp add: grade_check_def)
  have f: "fits_int64 1" by (simp add: fits_int64_def)
  have 1: "assign_grade ''s1'' 1 (Some 150) teacher_school
           = (Inl (IntegrityError (CHECK ''enrollments'')), teacher_school)"
    using t e g f by (simp add: assign_grade_def update_grade_def)
  have 2: "mark_attendance ''2024-01-08'' ''s1'' 1 [] teacher_school
           = (Inl (IntegrityError (CHECK ''attendance'')), teacher_school)"
    using t f by (simp add: mark_attendance_def insert_attendance_def)
  show ?thesis
    by (rule conjI[OF t], rule conjI[OF e], rule conjI[OF 1], rule 2)
qed


section \<open>export_report\<close>

lemma fold_append_blocks:
  "fold (\<lambda>record report. report @ f record) rs h = h @ concat (map f rs)"
  by (induction rs arbitrary: h) simp_all

lemma length_left_join: "length (left_join P xs) = max 1 (length (filter P xs))"
  by (simp add: left_join_def split: list.splits)

lemma length_joined_rows:
  "length (joined_rows db e)
   = length (filter (\<lambda>c. e_course_id e = c_course_id c) (tbl_courses db))
     * (max 1 (length (filter (\<lambda>a. a_student_username a = e_student_username e
                                   \<and> a_course_id a = e_course_id e) (tbl_attendance db)))
        * max 1 (length (filter (\<lambda>t. t_course_id t = e_course_id e) (tbl_timetable db))))"
  by (simp add: joined_rows_def length_concat comp_def sum_list_triv length_left_join)

lemma joined_rows_grade: "r \<in> set (joined_rows db e) \<Longrightarrow> r_grade r = e_grade e"
  by (auto simp: joined_rows_def)

lemma render_record_ungraded:
  "r_grade r = None \<Longrightarrow>
     \<exists>rest. render_record F r
            = ''Course: '' @ r_course_name r @ [nl] @ ''Grade: N/A'' @ [nl] @ rest"
  by (simp add: render_record_def grade_text_def)

lemma singleton_list: "length xs = 1 \<Longrightarrow> \<exists>x. xs = [x]"
  by (cases xs) simp_all

lemma report_text_blocks:
  "report_text F student_username student rows
   = report_header student_username student @ concat (map (render_record F) rows)"
  by (simp add: report_text_def fold_append_blocks)

lemma length_report_records:
  "length (report_records db student_username)
   = sum_list (map (\<lambda>e.
       length (filter (\<lambda>c. e_course_id e = c_course_id c) (tbl_courses db))
       * (max 1 (length (filter (\<lambda>a. a_student_username a = e_student_username e
                           \<and> a_course_id a = e_course_id e) (tbl_attendance db)))
          * max 1 (length (filter (\<lambda>t. t_course_id t = e_course_id e) (tbl_timetable db)))))
       (filter (\<lambda>e. e_student_username e = student_username) (tbl_enrollments db)))"
  by (simp add: report_records_def length_concat comp_def length_joined_rows)

text \<open>
  C6, as the code has it. When no row of \<open>students\<close> has the username, \<open>export_report\<close>
  returns \<open>False\<close> and the state, files included, is as before. When one has and the file
  cannot be opened, the call raises what \<open>open\<close> raises and the state is as before. When
  one has, the file can be opened and the text can be written, it returns \<open>True\<close> and
  writes the header followed by one block for every row of the report query, in the
  order in which the engine returns the rows. An enrollment yields as many rows as there
  are combinations of its course row, an attendance row of the student in the course (one
  combination when there is none) and a timetable row of the course (likewise). So a
  student with exactly two enrollments, each in one existing course and each with at most
  one attendance row and at most one timetable row, gets exactly two blocks, one for each
  enrollment and carrying its grade. Every block of a row whose grade is NULL has the
  line \<open>Grade: N/A\<close>.
\<close>

theorem export_report_blocks:
  "((\<forall>st \<in> set (tbl_students (conn s)). s_username st \<noteq> student_username) \<longrightarrow>
       export_report F fetch_order open_error encode_error student_username filename s
         = (Inr False, s))
   \<and> (find (\<lambda>st. s_username st = student_username) (tbl_students (conn s)) = Some student
       \<and> open_error filename = Some err \<longrightarrow>
       export_report F fetch_order open_error encode_error student_username filename s
         = (Inl err, s))
   \<and> (find (\<lambda>st. s_username st = student_username) (tbl_students (conn s)) = Some student
       \<and> mset (fetch_order (report_records (conn s) student_username))
         = mset (report_records (conn s) student_username)
       \<and> open_error filename = None
       \<and> encode_error (report_text F student_username student
                         (fetch_order (report_records (conn s) student_username))) = None
      \<longrightarrow>
       export_report F fetch_order open_error encode_error student_username filename s
         = (Inr True, s\<lparr>files := (files s)(filename \<mapsto>
              report_header student_username student
              @ concat (map (render_record F)
                          (fetch_order (report_records (conn s) student_username))))\<rparr>)
       \<and> length (fetch_order (report_records (conn s) student_username))
         = sum_list (map (\<lambda>e.
             length (filter (\<lambda>c. e_course_id e = c_course_id c) (tbl_courses (conn s)))
             * (max 1 (length (filter (\<lambda>a. a_student_username a = e_student_username e
                                 \<and> a_course_id a = e_course_id e) (tbl_attendance (conn s))))
                * max 1 (length (filter (\<lambda>t. t_course_id t = e_course_id e)
                                        (tbl_timetable (conn s))))))
             (filter (\<lambda>e. e_student_username e = student_username)
                     (tbl_enrollments (conn s))))
       \<and> (\<forall>r \<in> set (fetch_order (report_records (conn s) student_username)).
             r_grade r = None \<longrightarrow>
             (\<exists>rest. render_record F r
                     = ''Course: '' @ r_course_name r @ [nl] @ ''Grade: N/A'' @ [nl] @ rest))
       \<and> (filter (\<lambda>e. e_student_username e = student_username) (tbl_enrollments (conn s))
            = [e1, e2]
          \<and> (\<forall>e \<in> {e1, e2}.
                length (filter (\<lambda>c. e_course_id e = c_course_id c) (tbl_courses (conn s))) = 1
                \<and> length (filter (\<lambda>a. a_student_username a = e_student_username e
                                 \<and> a_course_id a = e_course_id e) (tbl_attendance (conn s))) \<le> 1
                \<and> length (filter (\<lambda>t. t_course_id t = e_course_id e)
                                  (tbl_timetable (conn s))) \<le> 1) \<longrightarrow>
          (\<exists>b1 b2. mset (fetch_order (report_records (conn s) student_username))
                     = mset [b1, b2]
                   \<and> joined_rows (conn s) e1 = [b1] \<and> joined_rows (conn s) e2 = [b2]
                   \<and> r_grade b1 = e_grade e1 \<and> r_grade b2 = e_grade e2)))"
  (is "(?none \<longrightarrow> ?refused) \<and> (?unopened \<longrightarrow> ?raised)
       \<and> (?found \<and> ?perm \<and> ?opened \<and> ?encoded \<longrightarrow> ?written \<and> ?count \<and> ?ungraded \<and> (?two \<longrightarrow> ?blocks))")
proof -
  let ?rows = "report_records (conn s) student_username"
  have p1: "?none \<longrightarrow> ?refused"
  proof
    assume ?none
    then have "find (\<lambda>st. s_username st = student_username) (tbl_students (conn s)) = None"
      by (simp add: find_eq_None)
    then show ?refused by (simp add: export_report_def)
  qed
  have p2: "?unopened \<longrightarrow> ?raised"
    by (simp add: export_report_def)
  have p3: "?found \<and> ?perm \<and> ?opened \<and> ?encoded
            \<longrightarrow> ?written \<and> ?count \<and> ?ungraded \<and> (?two \<longrightarrow> ?blocks)"
  proof
    assume a: "?found \<and> ?perm \<and> ?opened \<and> ?encoded"
    then have found: ?found and perm: ?perm and opened: ?opened and encoded: ?encoded
      by simp_all
    have c1: ?written
      using found opened encoded by (simp add: export_report_def report_text_blocks)
    have "length (fetch_order ?rows) = length ?rows"
      using perm by (rule mset_eq_length)
    then have c2: ?count by (simp only: length_report_records)
    have c3: ?ungraded using render_record_ungraded by blast
    have c4: "?two \<longrightarrow> ?blocks"
    proof
      assume two: ?two
      then have rows: "?rows = joined_rows (conn s) e1 @ joined_rows (conn s) e2"
        by (simp add: report_records_def)
      from two have "length (joined_rows (conn s) e1) = 1"
        "length (joined_rows (conn s) e2) = 1"
        by (simp_all add: length_joined_rows max_def)
      then obtain b1 b2 where
        b: "joined_rows (conn s) e1 = [b1]" "joined_rows (conn s) e2 = [b2]"
        using singleton_list by metis
      then have g: "r_grade b1 = e_grade e1" "r_grade b2 = e_grade e2"
        using joined_rows_grade[of b1 "conn s" e1] joined_rows_grade[of b2 "conn s" e2]
        by simp_all
      from perm rows b have "mset (fetch_order ?rows) = mset [b1, b2]" by simp
      with b g show ?blocks by (intro exI conjI)
    qed
    show "?written \<and> ?count \<and> ?ungraded \<and> (?two \<longrightarrow> ?blocks)"
      by (intro conjI c1 c2 c3 c4)
  qed
  show ?thesis by (intro conjI p1 p2 p3)
qed

text \<open>
  With the school of two teachers and student s1, in a directory without subdirectories:
  t1 has no row in \<open>students\<close>, so no report is written for t1; a report of s1 under a
  name with a slash is not written either; s1 has the two enrollments in courses 1 and
  2, nothing else is recorded for them, and the report of s1 has two blocks, both
  ungraded.
\<close>

theorem export_report_blocks_witness:
  "\<not> (\<exists>st \<in> set (tbl_students (conn teacher_school)). s_username st = ''t1'')
   \<and> export_report str_float_examples (\<lambda>rows. rows) open_error_examples encode_error_examples
       ''t1'' ''report_t1_20240108.txt'' teacher_school
     = (Inr False, teacher_school)
   \<and> find (\<lambda>st. s_username st = ''s1'') (tbl_students (conn teacher_school))
     = Some \<lparr>s_student_id = ''STU00s109'', s_username = ''s1'', s_grade_level = 9,
             s_assigned_teacher = Some ''t1''\<rparr>
   \<and> open_error_examples ''reports/s1.txt''
     = Some (FileNotFoundError ''[Errno 2] No such file or directory'')
   \<and> export_report str_float_examples (\<lambda>rows. rows) open_error_examples encode_error_examples
       ''s1'' ''reports/s1.txt'' teacher_school
     = (Inl (FileNotFoundError ''[Errno 2] No such file or directory''), teacher_school)
   \<and> open_error_examples ''report_s1_20240108.txt'' = None
   \<and> filter (\<lambda>e. e_student_username e = ''s1'') (tbl_enrollments (conn teacher_school))
     = [\<lparr>e_enrollment_id = 1, e_student_username = ''s1'', e_course_id = 1, e_grade = None\<rparr>,
        \<lparr>e_enrollment_id = 2, e_student_username = ''s1'', e_course_id = 2, e_grade = None\<rparr>]
   \<and> fst (export_report str_float_examples (\<lambda>rows. rows) open_error_examples
            encode_error_examples ''s1'' ''report_s1_20240108.txt'' teacher_school)
     = Inr True
   \<and> (\<exists>b1 b2. mset (report_records (conn teacher_school) ''s1'') = mset [b1, b2]
               \<and> r_grade b1 = None \<and> r_grade b2 = None)"
proof -
  let ?e1 = "\<lparr>e_enrollment_id = 1, e_student_username = ''s1'', e_course_id = 1,
              e_grade = None\<rparr>"
  let ?e2 = "\<lparr>e_enrollment_id = 2, e_student_username = ''s1'', e_course_id = 2,
              e_grade = None\<rparr>"
  let ?st = "\<lparr>s_student_id = ''STU00s109'', s_username = ''s1'', s_grade_level = 9,
              s_assigned_teacher = Some ''t1''\<rparr>"
  let ?err = "FileNotFoundError ''[Errno 2] No such file or directory''"
  have no: "\<not> (\<exists>st \<in> set (tbl_students (conn teacher_school)). s_username st = ''t1'')"
    by code_simp
  then have no': "\<forall>st \<in> set (tbl_students (conn teacher_school)). s_username st \<noteq> ''t1''"
    by simp
  have st: "find (\<lambda>st. s_username st = ''s1'') (tbl_students (conn teacher_school)) = Some ?st"
    by code_simp
  have bad: "open_error_examples ''reports/s1.txt'' = Some ?err" by code_simp
  have good: "open_error_examples ''report_s1_20240108.txt'' = None" by code_simp
  have enc: "encode_error_examples
               (report_text str_float_examples ''s1'' ?st
                  (report_records (conn teacher_school) ''s1'')) = None"
    by (simp add: encode_error_examples_def)
  have perm: "mset (report_records (conn teacher_school) ''s1'')
              = mset (report_records (conn teacher_school) ''s1'')"
    by (rule refl)
  have en: "filter (\<lambda>e. e_student_username e = ''s1'') (tbl_enrollments (conn teacher_school))
            = [?e1, ?e2]"
    by code_simp
  have one: "\<forall>e \<in> {?e1, ?e2}.
                length (filter (\<lambda>c. e_course_id e = c_course_id c)
                               (tbl_courses (conn teacher_school))) = 1
                \<and> length (filter (\<lambda>a. a_student_username a = e_student_username e
                                 \<and> a_course_id a = e_course_id e)
                                  (tbl_attendance (conn teacher_school))) \<le> 1
                \<and> length (filter (\<lambda>t. t_course_id t = e_course_id e)
                                  (tbl_timetable (conn teacher_school))) \<le> 1"
    by code_simp
  note t1 = export_report_blocks[where s = teacher_school and student_username = "''t1''"
              and F = str_float_examples and fetch_order = "\<lambda>rows. rows"
              and open_error = open_error_examples and encode_error = encode_error_examples
              and filename = "''report_t1_20240108.txt''"]
  note s1bad = export_report_blocks[where s = teacher_school and student_username = "''s1''"
              and F = str_float_examples and fetch_order = "\<lambda>rows. rows"
              and open_error = open_error_examples and encode_error = encode_error_examples
              and filename = "''reports/s1.txt''" and student = ?st and err = ?err]
  note s1 = export_report_blocks[where s = teacher_school and student_username = "''s1''"
              and F = str_float_examples and fetch_order = "\<lambda>rows. rows"
              and open_error = open_error_examples and encode_error = encode_error_examples
              and filename = "''report_s1_20240108.txt''"
              and student = ?st and ?e1.0 = ?e1 and ?e2.0 = ?e2]
  have 1: "export_report str_float_examples (\<lambda>rows. rows) open_error_examples
             encode_error_examples ''t1'' ''report_t1_20240108.txt'' teacher_school
           = (Inr False, teacher_school)"
    by (rule mp[OF t1[THEN conjunct1] no'])
  have 2: "export_report str_float_examples (\<lambda>rows. rows) open_error_examples
             encode_error_examples ''s1'' ''reports/s1.txt'' teacher_school
           = (Inl ?err, teacher_school)"
    by (rule mp[OF s1bad[THEN conjunct2, THEN conjunct1] conjI[OF st bad]])
  note rest = mp[OF s1[THEN conjunct2, THEN conjunct2]
                    conjI[OF st conjI[OF perm conjI[OF good enc]]]]
  have 3: "fst (export_report str_float_examples (\<lambda>rows. rows) open_error_examples
                  encode_error_examples ''s1'' ''report_s1_20240108.txt'' teacher_school)
           = Inr True"
    unfolding rest[THEN conjunct1] by simp
  from mp[OF rest[THEN conjunct2, THEN conjunct2, THEN conjunct2] conjI[OF en one]]
  obtain b1 b2 where b: "mset (report_records (conn teacher_school) ''s1'') = mset [b1, b2]"
    and g: "r_grade b1 = e_grade ?e1" "r_grade b2 = e_grade ?e2"
    by (elim exE conjE)
  from g have "r_grade b1 = None" "r_grade b2 = None" by simp_all
  with b have 4: "\<exists>b1 b2. mset (report_records (conn teacher_school) ''s1'') = mset [b1, b2]
               \<and> r_grade b1 = None \<and> r_grade b2 = None"
    by (intro exI conjI)
  show ?thesis
    by (rule conjI[OF no], rule conjI[OF 1], rule conjI[OF st], rule conjI[OF bad],
        rule conjI[OF 2], rule conjI[OF good], rule conjI[OF en], rule conjI[OF 3], rule 4)
qed

text \<open>
  C6 as stated fails: after t2 marked s1 present in Math on one day and late on the next,
  s1 still has exactly two enrollments, and the report query has three rows, two of them
  for the enrollment in Math: the report that is written has three blocks.
\<close>

theorem export_report_blocks_counterexample:
  "(\<exists>st \<in> set (tbl_students (conn attended_school)). s_username st = ''s1'')
   \<and> filter (\<lambda>e. e_student_username e = ''s1'') (tbl_enrollments (conn attended_school))
     = [\<lparr>e_enrollment_id = 1, e_student_username = ''s1'', e_course_id = 1, e_grade = None\<rparr>,
        \<lparr>e_enrollment_id = 2, e_student_username = ''s1'', e_course_id = 2, e_grade = None\<rparr>]
   \<and> length (joined_rows (conn attended_school)
               \<lparr>e_enrollment_id = 1, e_student_username = ''s1'', e_course_id = 1,
                e_grade = None\<rparr>) = 2
   \<and> length (report_records (conn attended_school) ''s1'') = 3
   \<and> fst (export_report str_float_examples (\<lambda>rows. rows) open_error_examples
            encode_error_examples ''s1'' ''report_s1_20240109.txt'' attended_school)
     = Inr True"
  by code_simp


end
